theory Spec2Isabelle
  imports Main
begin

section \<open>JavaScript values as the web adapter stores them\<close>

text \<open>
  The web backend (\<^verbatim>\<open>services/database/web.ts\<close>, class \<^verbatim>\<open>WebDatabase\<close>) keeps both
  tables as arrays of plain objects inside one JSON document. The promotion service
  (\<^verbatim>\<open>services/promocaoService.ts\<close>) reaches it through \<^verbatim>\<open>./database/native\<close>, which on the
  web platform hands out the \<^verbatim>\<open>db\<close> of \<^verbatim>\<open>./web\<close>. On the other platforms the statements go to
  the SQLite engine, which is a library and not part of the repository; the development
  below is therefore about the service running on the web adapter.

  A stored value is JSON: \<open>null\<close>, a number or a string. A number is a double; the model
  keeps the doubles that are integers (identifiers and counts are integers, and no
  arithmetic is done on a discount), each as the integer it is. An integer that is no
  double does not occur in a document. The one sum the adapter computes, the new identifier,
  is rounded as the double addition rounds it (\<open>arredondar\<close>).
  A \<open>char\<close> stands for one UTF-16 code unit below 256, so \<open>CHR 0xED\<close> is the accented i of
  the action tag of a deletion. A JavaScript value that may be \<^verbatim>\<open>undefined\<close> is a
  \<open>json option\<close>, with \<open>None\<close> for \<^verbatim>\<open>undefined\<close>.
\<close>

datatype json = JNull | JNum int | JStr string

type_synonym jsval = "json option"

text \<open>
  An object is the list of its own properties in insertion order. \<^verbatim>\<open>JSON.stringify\<close> drops
  a property whose value is \<^verbatim>\<open>undefined\<close>, and every object the adapter builds or changes is
  serialised before it is read again, so an object literal keeps only its defined
  properties (\<open>json_obj\<close>) and assigning \<^verbatim>\<open>undefined\<close> removes the property (\<open>assign\<close>).
\<close>

type_synonym obj = "(string \<times> json) list"

definition field :: "obj \<Rightarrow> string \<Rightarrow> jsval" where
  "field ob k = map_of ob k"

fun json_obj :: "(string \<times> jsval) list \<Rightarrow> obj" where
  "json_obj [] = []"
| "json_obj ((k, None) # kvs) = json_obj kvs"
| "json_obj ((k, Some v) # kvs) = (k, v) # json_obj kvs"

fun put :: "string \<Rightarrow> json \<Rightarrow> obj \<Rightarrow> obj" where
  "put k v [] = [(k, v)]"
| "put k v ((k', v') # ob) = (if k' = k then (k, v) # ob else (k', v') # put k v ob)"

definition assign :: "obj \<Rightarrow> string \<Rightarrow> jsval \<Rightarrow> obj" where
  "assign ob k v = (case v of None \<Rightarrow> filter (\<lambda>kv. fst kv \<noteq> k) ob | Some w \<Rightarrow> put k w ob)"

text \<open>\<^verbatim>\<open>params?.[i]\<close>: an index outside the array reads \<^verbatim>\<open>undefined\<close>.\<close>

definition param :: "jsval list \<Rightarrow> nat \<Rightarrow> jsval" where
  "param ps i = (if i < length ps then ps ! i else None)"

subsection \<open>String primitives\<close>

fun startsWith :: "string \<Rightarrow> string \<Rightarrow> bool" where
  "startsWith s [] = True"
| "startsWith [] (p # ps) = False"
| "startsWith (c # cs) (p # ps) = (c = p \<and> startsWith cs ps)"

fun str_includes :: "string \<Rightarrow> string \<Rightarrow> bool" where
  "str_includes [] pat = (pat = [])"
| "str_includes (c # cs) pat = (startsWith (c # cs) pat \<or> str_includes cs pat)"

text \<open>The relational comparison of two strings goes by code units; a proper prefix is smaller.\<close>

fun str_lt :: "string \<Rightarrow> string \<Rightarrow> bool" where
  "str_lt [] [] = False"
| "str_lt [] (b # bs) = True"
| "str_lt (a # as) [] = False"
| "str_lt (a # as) (b # bs) =
     ((of_char a :: nat) < of_char b \<or> (a = b \<and> str_lt as bs))"

fun join :: "string \<Rightarrow> string list \<Rightarrow> string" where
  "join sep [] = []"
| "join sep [x] = x"
| "join sep (x # y # xs) = x @ sep @ join sep (y # xs)"

subsection \<open>What the engine supplies\<close>

text \<open>
  Two conversions of the JavaScript engine are taken as parameters: the number a string
  converts to in an arithmetic context and the time value \<^verbatim>\<open>new Date(s)\<close> parses from a string.
  \<open>None\<close> is \<^verbatim>\<open>NaN\<close> in both.
\<close>

record js_env =
  str_to_number :: "string \<Rightarrow> int option"
  date_parse :: "string \<Rightarrow> int option"

fun to_number :: "js_env \<Rightarrow> jsval \<Rightarrow> int option" where
  "to_number env None = None"
| "to_number env (Some JNull) = Some 0"
| "to_number env (Some (JNum n)) = Some n"
| "to_number env (Some (JStr s)) = str_to_number env s"

text \<open>\<^verbatim>\<open>a < b\<close>: two strings compare as strings, anything else as numbers, and \<^verbatim>\<open>NaN\<close> compares false.\<close>

fun js_lt :: "js_env \<Rightarrow> jsval \<Rightarrow> jsval \<Rightarrow> bool" where
  "js_lt env (Some (JStr a)) (Some (JStr b)) = str_lt a b"
| "js_lt env a b =
     (case (to_number env a, to_number env b) of
        (Some x, Some y) \<Rightarrow> x < y
      | _ \<Rightarrow> False)"

text \<open>\<^verbatim>\<open>Math.max(...xs)\<close> on a non-empty argument list: \<^verbatim>\<open>NaN\<close> as soon as one argument is.\<close>

fun math_max :: "int option list \<Rightarrow> int option" where
  "math_max [] = None"
| "math_max [x] = x"
| "math_max (x # y # xs) =
     (case (x, math_max (y # xs)) of
        (Some a, Some b) \<Rightarrow> Some (max a b)
      | _ \<Rightarrow> None)"

text \<open>A number on its way into the JSON document: \<^verbatim>\<open>NaN\<close> is written as \<open>null\<close>.\<close>

definition num_json :: "int option \<Rightarrow> json" where
  "num_json n = (case n of None \<Rightarrow> JNull | Some i \<Rightarrow> JNum i)"

text \<open>\<^verbatim>\<open>new Date(v).getTime()\<close> for a stored value \<open>v\<close>.\<close>

fun date_time :: "js_env \<Rightarrow> jsval \<Rightarrow> int option" where
  "date_time env None = None"
| "date_time env (Some JNull) = Some 0"
| "date_time env (Some (JNum n)) =
     (if \<bar>n\<bar> \<le> 8640000000000000 then Some n else None)"
| "date_time env (Some (JStr s)) = date_parse env s"

text \<open>
  \<^verbatim>\<open>xs.sort((a, b) => new Date(b[k]).getTime() - new Date(a[k]).getTime())\<close>: a stable sort,
  latest first. Only the sign of the difference is used, and rounding keeps the sign. A
  comparator result of \<^verbatim>\<open>NaN\<close> counts as zero; where that makes the comparator
  inconsistent the engine may order the rows differently, the rows returned are the same.
\<close>

definition cmp_desc :: "js_env \<Rightarrow> string \<Rightarrow> obj \<Rightarrow> obj \<Rightarrow> int" where
  "cmp_desc env k a b =
     (case (date_time env (field b k), date_time env (field a k)) of
        (Some tb, Some ta) \<Rightarrow> tb - ta
      | _ \<Rightarrow> 0)"

fun insert_by :: "(obj \<Rightarrow> obj \<Rightarrow> int) \<Rightarrow> obj \<Rightarrow> obj list \<Rightarrow> obj list" where
  "insert_by cmp x [] = [x]"
| "insert_by cmp x (y # ys) = (if cmp x y \<le> 0 then x # y # ys else y # insert_by cmp x ys)"

definition sort_by :: "(obj \<Rightarrow> obj \<Rightarrow> int) \<Rightarrow> obj list \<Rightarrow> obj list" where
  "sort_by cmp xs = foldr (insert_by cmp) xs []"

section \<open>The web storage adapter\<close>

text \<open>
  The document under the key \<^verbatim>\<open>promocoes_database\<close>. \<open>None\<close> is the key not being set yet.
  A missing collection reads as the empty array everywhere (\<^verbatim>\<open>database.promocoes || []\<close>),
  so the two collections are always lists here.
\<close>

record database =
  promocoes :: "obj list"
  historico_promocoes :: "obj list"

type_synonym storage = "database option"

definition promocoes_of :: "storage \<Rightarrow> obj list" where
  "promocoes_of st = (case st of None \<Rightarrow> [] | Some d \<Rightarrow> promocoes d)"

definition historico_of :: "storage \<Rightarrow> obj list" where
  "historico_of st = (case st of None \<Rightarrow> [] | Some d \<Rightarrow> historico_promocoes d)"

definition nl :: char where
  "nl = CHR 0x0A"

definition excluida :: string where
  "excluida = ''exclu'' @ [CHR 0xED] @ ''da''"

definition getAllAsync :: "js_env \<Rightarrow> storage \<Rightarrow> string \<Rightarrow> jsval list \<Rightarrow> obj list" where
  \<open>getAllAsync env st query params =
     (case st of
        None \<Rightarrow> []
      | Some db \<Rightarrow>
          if str_includes query ''SELECT * FROM promocoes'' then promocoes db
          else if str_includes query ''SELECT * FROM historico_promocoes'' then historico_promocoes db
          else if str_includes query ''SELECT COUNT(*) as count FROM promocoes'' then
            [[(''count'', JNum (int (length (promocoes db))))]]
          else if str_includes query ''SELECT COUNT(*) as count FROM promocoes WHERE status = "ativa"'' then
            [[(''count'', JNum (int (length
                (filter (\<lambda>p. field p ''status'' = Some (JStr ''ativa'')) (promocoes db)))))]]
          else if str_includes query ''SELECT COUNT(*) as count FROM promocoes WHERE status = "expirada"'' then
            [[(''count'', JNum (int (length
                (filter (\<lambda>p. field p ''status'' = Some (JStr ''expirada'')) (promocoes db)))))]]
          else if str_includes query
              (''SELECT COUNT(*) as count FROM historico_promocoes WHERE acao = "'' @ excluida @ ''"'') then
            [[(''count'', JNum (int (length
                (filter (\<lambda>h. field h ''acao'' = Some (JStr excluida)) (historico_promocoes db)))))]]
          else if str_includes query (''WHERE data_fim < ? AND status = 'ativa'' @ [CHR 0x27]) then
            (let hoje = param params 0 in
             filter (\<lambda>p. js_lt env (field p ''data_fim'') hoje \<and> field p ''status'' = Some (JStr ''ativa''))
               (promocoes db))
          else if str_includes query ''WHERE id = ?'' then
            (let id = param params 0 in
             filter (\<lambda>p. field p ''id'' = id) (promocoes db))
          else if str_includes query ''WHERE promocao_id = ? AND acao = "expirada"'' then
            (let promocaoId = param params 0 in
             filter (\<lambda>h. field h ''promocao_id'' = promocaoId \<and> field h ''acao'' = Some (JStr ''expirada''))
               (historico_promocoes db))
          else if str_includes query ''ORDER BY data_criacao DESC'' then
            sort_by (cmp_desc env ''data_criacao'') (promocoes db)
          else if str_includes query ''ORDER BY data_acao DESC'' then
            sort_by (cmp_desc env ''data_acao'') (historico_promocoes db)
          else [])\<close>

definition getFirstAsync :: "js_env \<Rightarrow> storage \<Rightarrow> string \<Rightarrow> jsval list \<Rightarrow> obj option" where
  "getFirstAsync env st query params =
     (case getAllAsync env st query params of [] \<Rightarrow> None | r # rs \<Rightarrow> Some r)"

text \<open>The result of a mutating statement. \<open>lastInsertRowId\<close> is a number, \<open>None\<close> when it is \<^verbatim>\<open>NaN\<close>.\<close>

record run_result =
  lastInsertRowId :: "int option"
  changes :: nat

text \<open>
  The sum of two doubles is their exact sum rounded to 53 significant bits, to the nearest
  double and to the one with the even significand on a tie. \<open>bits\<close> is the length of a
  number in binary; \<open>arredondar\<close> rounds an integer so. Adding one to a double never
  exceeds the largest double, so no infinity arises.
\<close>

function bits :: "nat \<Rightarrow> nat" where
  "bits n = (if n = 0 then 0 else Suc (bits (n div 2)))"
  by pat_completeness auto
termination
  by (relation "measure (\<lambda>n. n)") auto

declare bits.simps [simp del]

definition arredondar :: "int \<Rightarrow> int" where
  "arredondar x =
     (let a = nat \<bar>x\<bar>;
          e = bits a - 53
      in if e = 0 then x
         else
           (let q = a div 2 ^ e;
                r = a mod 2 ^ e;
                q = (if 2 ^ e < 2 * r \<or> (2 * r = 2 ^ e \<and> odd q) then q + 1 else q)
            in sgn x * int (q * 2 ^ e)))"

text \<open>\<^verbatim>\<open>Math.max(...rows.map(r => r.id)) + 1\<close>\<close>

definition next_id :: "js_env \<Rightarrow> obj list \<Rightarrow> int option" where
  "next_id env rows =
     (if length rows > 0
      then map_option (\<lambda>m. arredondar (m + 1))
             (math_max (map (\<lambda>r. to_number env (field r ''id'')) rows))
      else Some 1)"

text \<open>\<^verbatim>\<open>rows.find(p => p.id === id)\<close> followed by assignments to the row found.\<close>

fun update_first :: "(obj \<Rightarrow> bool) \<Rightarrow> (obj \<Rightarrow> obj) \<Rightarrow> obj list \<Rightarrow> obj list" where
  "update_first P f [] = []"
| "update_first P f (r # rs) = (if P r then f r # rs else r # update_first P f rs)"

text \<open>The generic branch of an update by identifier, with its running \<^verbatim>\<open>paramIndex\<close>.\<close>

definition update_generico :: "string \<Rightarrow> jsval list \<Rightarrow> obj \<Rightarrow> obj" where
  "update_generico query params promocao =
     (let paramIndex = 0;
          (promocao, paramIndex) =
            (if str_includes query ''desconto = ?''
             then (assign promocao ''desconto'' (param params paramIndex), paramIndex + 1)
             else (promocao, paramIndex));
          (promocao, paramIndex) =
            (if str_includes query ''data_fim = ?''
             then (assign promocao ''data_fim'' (param params paramIndex), paramIndex + 1)
             else (promocao, paramIndex));
          (promocao, paramIndex) =
            (if str_includes query ''status = ?''
             then (assign promocao ''status'' (param params paramIndex), paramIndex + 1)
             else (promocao, paramIndex))
      in promocao)"

definition expirar :: "jsval \<Rightarrow> obj \<Rightarrow> obj" where
  "expirar hoje promocao =
     assign (assign promocao ''status'' (Some (JStr ''expirada''))) ''data_expiracao'' hoje"

definition runAsync :: "js_env \<Rightarrow> storage \<Rightarrow> string \<Rightarrow> jsval list \<Rightarrow> run_result \<times> storage" where
  \<open>runAsync env st query params =
     (let db = (case st of
                  None \<Rightarrow> \<lparr>promocoes = [], historico_promocoes = []\<rparr>
                | Some d \<Rightarrow> d)
      in
      if startsWith query ''INSERT INTO promocoes'' then
        (let newId = next_id env (promocoes db);
             novaPromocao = json_obj
               [(''id'', Some (num_json newId)),
                (''produto_id'', param params 0),
                (''produto_nome'', param params 1),
                (''desconto'', param params 2),
                (''data_inicio'', param params 3),
                (''data_fim'', param params 4),
                (''data_criacao'', param params 5),
                (''status'', param params 6),
                (''data_expiracao'', Some JNull)]
         in (\<lparr>lastInsertRowId = newId, changes = 1\<rparr>,
             Some (db\<lparr>promocoes := promocoes db @ [novaPromocao]\<rparr>)))
      else if startsWith query ''INSERT INTO historico_promocoes'' then
        (let newId = next_id env (historico_promocoes db);
             novoHistorico = json_obj
               [(''id'', Some (num_json newId)),
                (''promocao_id'', param params 0),
                (''produto_nome'', param params 1),
                (''desconto'', param params 2),
                (''data_inicio'', param params 3),
                (''data_fim'', param params 4),
                (''acao'', param params 5),
                (''data_acao'', param params 6)]
         in (\<lparr>lastInsertRowId = newId, changes = 1\<rparr>,
             Some (db\<lparr>historico_promocoes := historico_promocoes db @ [novoHistorico]\<rparr>)))
      else if startsWith query ''UPDATE promocoes'' then
        (if str_includes query ''WHERE id = ?'' then
           (let id = param params (length params - 1) in
            if find (\<lambda>p. field p ''id'' = id) (promocoes db) \<noteq> None then
              (if str_includes query (''SET status = 'expirada'' @ [CHR 0x27]) then
                 (\<lparr>lastInsertRowId = Some 0, changes = 1\<rparr>,
                  Some (db\<lparr>promocoes :=
                    update_first (\<lambda>p. field p ''id'' = id) (expirar (param params 0)) (promocoes db)\<rparr>))
               else
                 (\<lparr>lastInsertRowId = Some 0, changes = 1\<rparr>,
                  Some (db\<lparr>promocoes :=
                    update_first (\<lambda>p. field p ''id'' = id) (update_generico query params) (promocoes db)\<rparr>)))
            else (\<lparr>lastInsertRowId = Some 0, changes = 0\<rparr>, Some db))
         else if str_includes query (''WHERE data_fim < ? AND status = 'ativa'' @ [CHR 0x27]) then
           (let hoje = param params 0;
                vencida = (\<lambda>promocao. js_lt env (field promocao ''data_fim'') hoje
                                      \<and> field promocao ''status'' = Some (JStr ''ativa''))
            in (\<lparr>lastInsertRowId = Some 0, changes = length (filter vencida (promocoes db))\<rparr>,
                Some (db\<lparr>promocoes :=
                  map (\<lambda>promocao. if vencida promocao then expirar hoje promocao else promocao)
                    (promocoes db)\<rparr>)))
         else (\<lparr>lastInsertRowId = Some 0, changes = 0\<rparr>, Some db))
      else if startsWith query ''DELETE FROM promocoes'' then
        (let id = param params 0;
             initialLength = length (promocoes db);
             restantes = filter (\<lambda>p. field p ''id'' \<noteq> id) (promocoes db)
         in (\<lparr>lastInsertRowId = Some 0, changes = initialLength - length restantes\<rparr>,
             Some (db\<lparr>promocoes := restantes\<rparr>)))
      else (\<lparr>lastInsertRowId = Some 0, changes = 0\<rparr>, st))\<close>

subsection \<open>The adapter of \<^verbatim>\<open>services/database.ts\<close>\<close>

text \<open>
  \<^verbatim>\<open>services/database.ts\<close> holds another web adapter, \<^verbatim>\<open>WebDatabaseImpl\<close>, which the service
  does not import. Its \<open>runAsync\<close> generates identifiers in the same way; it differs in the
  row it inserts into the promotions (no \<^verbatim>\<open>data_expiracao\<close>), in the generic update, which
  goes by the position of the parameters, in having no update by date, and in the count a
  deletion reports. It reads the two collections without a default, so it is modelled on
  documents that have both, as every document it writes has.
\<close>

definition impl_update_generico :: "jsval list \<Rightarrow> obj \<Rightarrow> obj" where
  "impl_update_generico params promocao =
     (let promocao = (if param params 0 \<noteq> None
                      then assign promocao ''desconto'' (param params 0) else promocao);
          promocao = (if param params 1 \<noteq> None
                      then assign promocao ''data_fim'' (param params 1) else promocao);
          promocao = (if param params 2 \<noteq> None
                      then assign promocao ''status'' (param params 2) else promocao)
      in promocao)"

definition impl_runAsync :: "js_env \<Rightarrow> storage \<Rightarrow> string \<Rightarrow> jsval list \<Rightarrow> run_result \<times> storage" where
  \<open>impl_runAsync env st query params =
     (let db = (case st of
                  None \<Rightarrow> \<lparr>promocoes = [], historico_promocoes = []\<rparr>
                | Some d \<Rightarrow> d)
      in
      if startsWith query ''INSERT INTO promocoes'' then
        (let newId = next_id env (promocoes db);
             novaPromocao = json_obj
               [(''id'', Some (num_json newId)),
                (''produto_id'', param params 0),
                (''produto_nome'', param params 1),
                (''desconto'', param params 2),
                (''data_inicio'', param params 3),
                (''data_fim'', param params 4),
                (''data_criacao'', param params 5),
                (''status'', param params 6)]
         in (\<lparr>lastInsertRowId = newId, changes = 1\<rparr>,
             Some (db\<lparr>promocoes := promocoes db @ [novaPromocao]\<rparr>)))
      else if startsWith query ''INSERT INTO historico_promocoes'' then
        (let newId = next_id env (historico_promocoes db);
             novoHistorico = json_obj
               [(''id'', Some (num_json newId)),
                (''promocao_id'', param params 0),
                (''produto_nome'', param params 1),
                (''desconto'', param params 2),
                (''data_inicio'', param params 3),
                (''data_fim'', param params 4),
                (''acao'', param params 5),
                (''data_acao'', param params 6)]
         in (\<lparr>lastInsertRowId = newId, changes = 1\<rparr>,
             Some (db\<lparr>historico_promocoes := historico_promocoes db @ [novoHistorico]\<rparr>)))
      else if startsWith query ''UPDATE promocoes'' then
        (if str_includes query ''WHERE id = ?'' then
           (let id = param params (length params - 1) in
            if find (\<lambda>p. field p ''id'' = id) (promocoes db) \<noteq> None then
              (if str_includes query (''SET status = 'expirada'' @ [CHR 0x27]) then
                 (\<lparr>lastInsertRowId = Some 0, changes = 1\<rparr>,
                  Some (db\<lparr>promocoes :=
                    update_first (\<lambda>p. field p ''id'' = id) (expirar (param params 0)) (promocoes db)\<rparr>))
               else
                 (\<lparr>lastInsertRowId = Some 0, changes = 1\<rparr>,
                  Some (db\<lparr>promocoes :=
                    update_first (\<lambda>p. field p ''id'' = id) (impl_update_generico params) (promocoes db)\<rparr>)))
            else (\<lparr>lastInsertRowId = Some 0, changes = 0\<rparr>, Some db))
         else (\<lparr>lastInsertRowId = Some 0, changes = 0\<rparr>, Some db))
      else if startsWith query ''DELETE FROM promocoes'' then
        (let id = param params 0
         in (\<lparr>lastInsertRowId = Some 0, changes = 1\<rparr>,
             Some (db\<lparr>promocoes := filter (\<lambda>p. field p ''id'' \<noteq> id) (promocoes db)\<rparr>)))
      else (\<lparr>lastInsertRowId = Some 0, changes = 0\<rparr>, st))\<close>

section \<open>The promotion service\<close>

text \<open>
  Every function of the service is a sequence of adapter calls; the storage is passed along
  and returned. The service rethrows what the adapter throws, and the web adapter catches
  everything itself, so no function here has an error result. The model takes the calls to
  the storage medium to succeed. The clock is an argument: \<open>agora\<close> is the time value of
  \<^verbatim>\<open>new Date()\<close> and \<open>hoje\<close> is \<^verbatim>\<open>new Date().toISOString().split('T')[0]\<close>.
\<close>

subsection \<open>Statement texts\<close>

definition sql_inserir_promocao :: string where
  \<open>sql_inserir_promocao =
     ''INSERT INTO promocoes '' @
     [nl] @
     ''       (produto_id, produto_nome, desconto, data_inicio, data_fim, data_criacao, status) '' @
     [nl] @
     ''       VALUES (?, ?, ?, ?, ?, ?, ?)''\<close>

definition sql_historico_criada :: string where
  \<open>sql_historico_criada =
     ''INSERT INTO historico_promocoes '' @
     [nl] @
     ''       (promocao_id, produto_nome, desconto, data_inicio, data_fim, acao, data_acao) '' @
     [nl] @
     ''       VALUES (?, ?, ?, ?, ?, ?, ?)''\<close>

definition sql_todas_promocoes :: string where
  \<open>sql_todas_promocoes =
     ''SELECT '' @
     [nl] @
     ''        id,'' @
     [nl] @
     ''        produto_id as produtoId,'' @
     [nl] @
     ''        produto_nome as produtoNome,'' @
     [nl] @
     ''        desconto,'' @
     [nl] @
     ''        data_inicio as dataInicio,'' @
     [nl] @
     ''        data_fim as dataFim,'' @
     [nl] @
     ''        data_criacao as dataCriacao,'' @
     [nl] @
     ''        status,'' @
     [nl] @
     ''        data_expiracao as dataExpiracao'' @
     [nl] @
     ''       FROM promocoes ORDER BY data_criacao DESC''\<close>

definition sql_historico_completo :: string where
  \<open>sql_historico_completo =
     ''SELECT '' @
     [nl] @
     ''        id,'' @
     [nl] @
     ''        promocao_id as promocaoId,'' @
     [nl] @
     ''        produto_nome as produtoNome,'' @
     [nl] @
     ''        desconto,'' @
     [nl] @
     ''        data_inicio as dataInicio,'' @
     [nl] @
     ''        data_fim as dataFim,'' @
     [nl] @
     ''        acao,'' @
     [nl] @
     ''        data_acao as dataAcao'' @
     [nl] @
     ''       FROM historico_promocoes ORDER BY data_acao DESC''\<close>

definition sql_historico_atualizada :: string where
  \<open>sql_historico_atualizada =
     ''INSERT INTO historico_promocoes '' @
     [nl] @
     ''           (promocao_id, produto_nome, desconto, data_inicio, data_fim, acao, data_acao) '' @
     [nl] @
     ''           VALUES (?, ?, ?, ?, ?, ?, ?)''\<close>

definition sql_historico_excluida :: string where
  \<open>sql_historico_excluida =
     ''INSERT INTO historico_promocoes '' @
     [nl] @
     ''         (promocao_id, produto_nome, desconto, data_inicio, data_fim, acao, data_acao) '' @
     [nl] @
     ''         VALUES (?, ?, ?, ?, ?, ?, ?)''\<close>

definition sql_expirar_vencidas :: string where
  \<open>sql_expirar_vencidas =
     ''UPDATE promocoes SET status = 'expirada', data_expiracao = ? '' @
     [nl] @
     ''       WHERE data_fim < ? AND status = 'ativa'' @
     [CHR 0x27]\<close>

definition sql_expiradas_hoje :: string where
  \<open>sql_expiradas_hoje =
     ''SELECT '' @
     [nl] @
     ''        id,'' @
     [nl] @
     ''        produto_id as produtoId,'' @
     [nl] @
     ''        produto_nome as produtoNome,'' @
     [nl] @
     ''        desconto,'' @
     [nl] @
     ''        data_inicio as dataInicio,'' @
     [nl] @
     ''        data_fim as dataFim,'' @
     [nl] @
     ''        data_criacao as dataCriacao,'' @
     [nl] @
     ''        status,'' @
     [nl] @
     ''        data_expiracao as dataExpiracao'' @
     [nl] @
     ''       FROM promocoes WHERE data_expiracao = ? AND status = "expirada"''\<close>

definition sql_existe_no_historico :: string where
  \<open>sql_existe_no_historico =
     ''SELECT '' @
     [nl] @
     ''          id,'' @
     [nl] @
     ''          promocao_id as promocaoId,'' @
     [nl] @
     ''          produto_nome as produtoNome,'' @
     [nl] @
     ''          desconto,'' @
     [nl] @
     ''          data_inicio as dataInicio,'' @
     [nl] @
     ''          data_fim as dataFim,'' @
     [nl] @
     ''          acao,'' @
     [nl] @
     ''          data_acao as dataAcao'' @
     [nl] @
     ''         FROM historico_promocoes WHERE promocao_id = ? AND acao = "expirada"''\<close>

definition sql_historico_expirada :: string where
  \<open>sql_historico_expirada =
     ''INSERT INTO historico_promocoes '' @
     [nl] @
     ''           (promocao_id, produto_nome, desconto, data_inicio, data_fim, acao, data_acao) '' @
     [nl] @
     ''           VALUES (?, ?, ?, ?, ?, ?, ?)''\<close>

definition sql_por_status :: string where
  \<open>sql_por_status =
     ''SELECT '' @
     [nl] @
     ''        id,'' @
     [nl] @
     ''        produto_id as produtoId,'' @
     [nl] @
     ''        produto_nome as produtoNome,'' @
     [nl] @
     ''        desconto,'' @
     [nl] @
     ''        data_inicio as dataInicio,'' @
     [nl] @
     ''        data_fim as dataFim,'' @
     [nl] @
     ''        data_criacao as dataCriacao,'' @
     [nl] @
     ''        status,'' @
     [nl] @
     ''        data_expiracao as dataExpiracao'' @
     [nl] @
     ''       FROM promocoes WHERE status = ? ORDER BY data_criacao DESC''\<close>

definition sql_por_id :: string where
  \<open>sql_por_id =
     ''SELECT '' @
     [nl] @
     ''        id,'' @
     [nl] @
     ''        produto_id as produtoId,'' @
     [nl] @
     ''        produto_nome as produtoNome,'' @
     [nl] @
     ''        desconto,'' @
     [nl] @
     ''        data_inicio as dataInicio,'' @
     [nl] @
     ''        data_fim as dataFim,'' @
     [nl] @
     ''        data_criacao as dataCriacao,'' @
     [nl] @
     ''        status,'' @
     [nl] @
     ''        data_expiracao as dataExpiracao'' @
     [nl] @
     ''       FROM promocoes WHERE id = ?''\<close>

definition sql_excluir :: string where
  \<open>sql_excluir =
     ''DELETE FROM promocoes WHERE id = ?''\<close>

definition sql_count_total :: string where
  \<open>sql_count_total =
     ''SELECT COUNT(*) as count FROM promocoes''\<close>

definition sql_count_ativas :: string where
  \<open>sql_count_ativas =
     ''SELECT COUNT(*) as count FROM promocoes WHERE status = "ativa"''\<close>

definition sql_count_expiradas :: string where
  \<open>sql_count_expiradas =
     ''SELECT COUNT(*) as count FROM promocoes WHERE status = "expirada"''\<close>

definition sql_count_canceladas :: string where
  \<open>sql_count_canceladas =
     ''SELECT COUNT(*) as count FROM historico_promocoes WHERE acao = "exclu'' @
     [CHR 0xED] @
     ''da"''\<close>

subsection \<open>Operations\<close>

record CriarPromocaoData =
  produtoId :: string
  produtoNome :: string
  desconto :: int
  dataInicio :: string
  dataFim :: string
  dataCriacao :: string

record EstatisticasPromocoes =
  total :: json
  ativas :: json
  expiradas :: json
  canceladas :: json

text \<open>\<^verbatim>\<open>new Date(s) > new Date()\<close>: an invalid date is \<^verbatim>\<open>NaN\<close> and compares false.\<close>

definition depois_de :: "js_env \<Rightarrow> string \<Rightarrow> int \<Rightarrow> bool" where
  "depois_de env s agora = (case date_parse env s of None \<Rightarrow> False | Some t \<Rightarrow> agora < t)"

definition criarPromocao :: "js_env \<Rightarrow> int \<Rightarrow> CriarPromocaoData \<Rightarrow> storage \<Rightarrow> int option \<times> storage" where
  "criarPromocao env agora dados st =
     (let status = (if depois_de env (dataFim dados) agora then ''ativa'' else ''expirada'');
          (result, st) = runAsync env st sql_inserir_promocao
            [Some (JStr (produtoId dados)), Some (JStr (produtoNome dados)),
             Some (JNum (desconto dados)), Some (JStr (dataInicio dados)),
             Some (JStr (dataFim dados)), Some (JStr (dataCriacao dados)), Some (JStr status)];
          (_, st) = runAsync env st sql_historico_criada
            [Some (num_json (lastInsertRowId result)), Some (JStr (produtoNome dados)),
             Some (JNum (desconto dados)), Some (JStr (dataInicio dados)),
             Some (JStr (dataFim dados)), Some (JStr ''criada''), Some (JStr (dataCriacao dados))]
      in (lastInsertRowId result, st))"

definition buscarTodasPromocoes :: "js_env \<Rightarrow> storage \<Rightarrow> obj list" where
  "buscarTodasPromocoes env st = getAllAsync env st sql_todas_promocoes []"

definition buscarHistoricoCompleto :: "js_env \<Rightarrow> storage \<Rightarrow> obj list" where
  "buscarHistoricoCompleto env st = getAllAsync env st sql_historico_completo []"

definition buscarPromocoesPorStatus :: "js_env \<Rightarrow> storage \<Rightarrow> string \<Rightarrow> obj list" where
  "buscarPromocoesPorStatus env st status = getAllAsync env st sql_por_status [Some (JStr status)]"

definition buscarPromocaoPorId :: "js_env \<Rightarrow> storage \<Rightarrow> int \<Rightarrow> obj option" where
  "buscarPromocaoPorId env st ident = getFirstAsync env st sql_por_id [Some (JNum ident)]"

text \<open>
  The keys of a \<^verbatim>\<open>Partial<Promocao>\<close>. An update is the list of its keys and values in
  insertion order; a key may carry \<^verbatim>\<open>undefined\<close>.
\<close>

datatype campo =
  Id | ProdutoId | ProdutoNome | Desconto | DataInicio | DataFim | DataCriacao | Status | DataExpiracao

fun nome_campo :: "campo \<Rightarrow> string" where
  "nome_campo Id = ''id''"
| "nome_campo ProdutoId = ''produtoId''"
| "nome_campo ProdutoNome = ''produtoNome''"
| "nome_campo Desconto = ''desconto''"
| "nome_campo DataInicio = ''dataInicio''"
| "nome_campo DataFim = ''dataFim''"
| "nome_campo DataCriacao = ''dataCriacao''"
| "nome_campo Status = ''status''"
| "nome_campo DataExpiracao = ''dataExpiracao''"

definition camposSnakeCase :: "(string \<times> string) list" where
  "camposSnakeCase =
     [(''produtoId'', ''produto_id''),
      (''produtoNome'', ''produto_nome''),
      (''dataInicio'', ''data_inicio''),
      (''dataFim'', ''data_fim''),
      (''dataCriacao'', ''data_criacao''),
      (''dataExpiracao'', ''data_expiracao'')]"

definition valor :: "(campo \<times> jsval) list \<Rightarrow> campo \<Rightarrow> jsval" where
  "valor updates c = (case map_of updates c of None \<Rightarrow> None | Some v \<Rightarrow> v)"

definition sql_update :: "string list \<Rightarrow> string" where
  "sql_update campos =
     (let setClause = join '', ''
        (map (\<lambda>campo. (case map_of camposSnakeCase campo of Some s \<Rightarrow> s | None \<Rightarrow> campo) @ '' = ?'')
           campos)
      in ''UPDATE promocoes SET '' @ setClause @ '' WHERE id = ?'')"

definition atualizarPromocao :: "js_env \<Rightarrow> string \<Rightarrow> int \<Rightarrow> (campo \<times> jsval) list \<Rightarrow> storage \<Rightarrow> storage" where
  "atualizarPromocao env hoje ident updates st =
     (let campos = map (nome_campo \<circ> fst) updates;
          valores = map snd updates
      in if length campos = 0 then st
         else
           (let query = sql_update campos;
                (_, st) = runAsync env st query (valores @ [Some (JNum ident)])
            in if valor updates Desconto \<noteq> None then
                 (case buscarPromocaoPorId env st ident of
                    None \<Rightarrow> st
                  | Some promocao \<Rightarrow>
                      snd (runAsync env st sql_historico_atualizada
                        [Some (JNum ident), field promocao ''produtoNome'', valor updates Desconto,
                         field promocao ''dataInicio'', field promocao ''dataFim'',
                         Some (JStr ''atualizada''), Some (JStr hoje)]))
               else st))"

definition excluirPromocao :: "js_env \<Rightarrow> string \<Rightarrow> int \<Rightarrow> storage \<Rightarrow> storage" where
  "excluirPromocao env hoje ident st =
     (let st = (case buscarPromocaoPorId env st ident of
                  None \<Rightarrow> st
                | Some promocao \<Rightarrow>
                    snd (runAsync env st sql_historico_excluida
                      [Some (JNum ident), field promocao ''produtoNome'', field promocao ''desconto'',
                       field promocao ''dataInicio'', field promocao ''dataFim'',
                       Some (JStr excluida), Some (JStr hoje)]))
      in snd (runAsync env st sql_excluir [Some (JNum ident)]))"

text \<open>The loop of the sweep over the rows its read returned.\<close>

fun registrar_expiradas :: "js_env \<Rightarrow> string \<Rightarrow> obj list \<Rightarrow> storage \<Rightarrow> storage" where
  "registrar_expiradas env hoje [] st = st"
| "registrar_expiradas env hoje (promocao # resto) st =
     (let existeNoHistorico = getFirstAsync env st sql_existe_no_historico [field promocao ''id''];
          st = (if existeNoHistorico = None
                then snd (runAsync env st sql_historico_expirada
                       [field promocao ''id'', field promocao ''produtoNome'', field promocao ''desconto'',
                        field promocao ''dataInicio'', field promocao ''dataFim'',
                        Some (JStr ''expirada''), Some (JStr hoje)])
                else st)
      in registrar_expiradas env hoje resto st)"

definition atualizarStatusPromocoes :: "js_env \<Rightarrow> string \<Rightarrow> storage \<Rightarrow> storage" where
  "atualizarStatusPromocoes env hoje st =
     (let (_, st) = runAsync env st sql_expirar_vencidas [Some (JStr hoje), Some (JStr hoje)];
          promocoesExpiradas = getAllAsync env st sql_expiradas_hoje [Some (JStr hoje)]
      in registrar_expiradas env hoje promocoesExpiradas st)"

text \<open>\<^verbatim>\<open>row?.count || 0\<close>: zero for a missing row, a missing count and any falsy count.\<close>

definition count_ou_zero :: "obj option \<Rightarrow> json" where
  "count_ou_zero row =
     (case row of
        None \<Rightarrow> JNum 0
      | Some r \<Rightarrow>
          (case field r ''count'' of
             None \<Rightarrow> JNum 0
           | Some JNull \<Rightarrow> JNum 0
           | Some (JNum n) \<Rightarrow> JNum n
           | Some (JStr s) \<Rightarrow> (if s = [] then JNum 0 else JStr s)))"

definition obterEstatisticasPromocoes :: "js_env \<Rightarrow> storage \<Rightarrow> EstatisticasPromocoes" where
  "obterEstatisticasPromocoes env st =
     (let total = getFirstAsync env st sql_count_total [];
          ativas = getFirstAsync env st sql_count_ativas [];
          expiradas = getFirstAsync env st sql_count_expiradas [];
          canceladas = getFirstAsync env st sql_count_canceladas []
      in \<lparr>total = count_ou_zero total,
          ativas = count_ou_zero ativas,
          expiradas = count_ou_zero expiradas,
          canceladas = count_ou_zero canceladas\<rparr>)"

section \<open>Notions used in the statements\<close>

text \<open>The number of history rows that record the expiry of the promotion \<open>k\<close>.\<close>

definition n_expirada :: "jsval \<Rightarrow> obj list \<Rightarrow> nat" where
  "n_expirada k hs =
     length (filter (\<lambda>h. field h ''promocao_id'' = k \<and> field h ''acao'' = Some (JStr ''expirada'')) hs)"

text \<open>
  The substrings \<open>getAllAsync\<close> looks for, in the order it tests them, and the prefixes
  \<open>runAsync\<close> looks for.
\<close>

definition padroes_leitura :: "string list" where
  \<open>padroes_leitura =
     [''SELECT * FROM promocoes'',
      ''SELECT * FROM historico_promocoes'',
      ''SELECT COUNT(*) as count FROM promocoes'',
      ''SELECT COUNT(*) as count FROM promocoes WHERE status = "ativa"'',
      ''SELECT COUNT(*) as count FROM promocoes WHERE status = "expirada"'',
      ''SELECT COUNT(*) as count FROM historico_promocoes WHERE acao = "'' @ excluida @ ''"'',
      ''WHERE data_fim < ? AND status = 'ativa'' @ [CHR 0x27],
      ''WHERE id = ?'',
      ''WHERE promocao_id = ? AND acao = "expirada"'',
      ''ORDER BY data_criacao DESC'',
      ''ORDER BY data_acao DESC'']\<close>

definition padroes_escrita :: "string list" where
  "padroes_escrita =
     [''INSERT INTO promocoes'',
      ''INSERT INTO historico_promocoes'',
      ''UPDATE promocoes'',
      ''DELETE FROM promocoes'']"

text \<open>
  The identifier of a row when it is a number, the tables in which every row has one, and
  the identifier an insert is to generate: one more than the largest, or one for an empty table.
\<close>

definition id_num :: "obj \<Rightarrow> int option" where
  "id_num r = (case field r ''id'' of Some (JNum n) \<Rightarrow> Some n | _ \<Rightarrow> None)"

definition ids_numericos :: "obj list \<Rightarrow> bool" where
  "ids_numericos rows = list_all (\<lambda>r. id_num r \<noteq> None) rows"

text \<open>The tables whose identifiers are safe integers, of magnitude below \<open>2^53\<close>.\<close>

definition ids_seguros :: "obj list \<Rightarrow> bool" where
  "ids_seguros rows =
     list_all (\<lambda>r. case id_num r of None \<Rightarrow> False | Some n \<Rightarrow> \<bar>n\<bar> < 9007199254740992) rows"

definition ids_de :: "obj list \<Rightarrow> int list" where
  "ids_de rows = List.map_filter id_num rows"

definition um_mais_maximo :: "obj list \<Rightarrow> int" where
  "um_mais_maximo rows = (if rows = [] then 1 else Max (set (ids_de rows)) + 1)"


subsection \<open>Example stores\<close>

text \<open>One promotion of the product \<open>Cafe\<close>, ending on 31 January 2024, as the adapter stores it.\<close>

definition promocao_cafe :: "string \<Rightarrow> jsval \<Rightarrow> obj" where
  "promocao_cafe status expiracao = json_obj
     [(''id'', Some (JNum 1)), (''produto_id'', Some (JStr ''p1'')), (''produto_nome'', Some (JStr ''Cafe'')),
      (''desconto'', Some (JNum 10)), (''data_inicio'', Some (JStr ''2024-01-01'')),
      (''data_fim'', Some (JStr ''2024-01-31'')), (''data_criacao'', Some (JStr ''2024-01-01'')),
      (''status'', Some (JStr status)), (''data_expiracao'', expiracao)]"

definition loja_cafe :: "string \<Rightarrow> jsval \<Rightarrow> storage" where
  "loja_cafe status expiracao =
     Some \<lparr>promocoes = [promocao_cafe status expiracao], historico_promocoes = []\<rparr>"

text \<open>A history row of that promotion.\<close>

definition historico_cafe :: "string \<Rightarrow> string \<Rightarrow> obj" where
  "historico_cafe acao dia = json_obj
     [(''id'', Some (JNum 1)), (''promocao_id'', Some (JNum 1)), (''produto_nome'', Some (JStr ''Cafe'')),
      (''desconto'', Some (JNum 10)), (''data_inicio'', Some (JStr ''2024-01-01'')),
      (''data_fim'', Some (JStr ''2024-01-31'')), (''acao'', Some (JStr acao)),
      (''data_acao'', Some (JStr dia))]"

definition loja_cafe_expirada :: storage where
  "loja_cafe_expirada =
     Some \<lparr>promocoes = [promocao_cafe ''expirada'' (Some (JStr ''2024-02-01''))],
           historico_promocoes = [historico_cafe ''expirada'' ''2024-02-01'']\<rparr>"

text \<open>A store whose one promotion has the identifier \<open>2^53\<close>.\<close>

definition loja_id_2_53 :: storage where
  "loja_id_2_53 =
     Some \<lparr>promocoes =
             [json_obj
                [(''id'', Some (JNum 9007199254740992)), (''produto_id'', Some (JStr ''p1'')),
                 (''produto_nome'', Some (JStr ''Cafe'')), (''desconto'', Some (JNum 10)),
                 (''data_inicio'', Some (JStr ''2024-01-01'')), (''data_fim'', Some (JStr ''2024-01-31'')),
                 (''data_criacao'', Some (JStr ''2024-01-01'')), (''status'', Some (JStr ''ativa'')),
                 (''data_expiracao'', Some JNull)]],
           historico_promocoes = []\<rparr>"

text \<open>An engine that parses no string as a number and the one date \<open>2030-01-01\<close>.\<close>

definition env_exemplo :: js_env where
  "env_exemplo =
     \<lparr>str_to_number = (\<lambda>s. None),
      date_parse = (\<lambda>s. if s = ''2030-01-01'' then Some 1893456000000 else None)\<rparr>"

section \<open>Strings and objects\<close>

lemma startsWith_iff: "startsWith s p \<longleftrightarrow> (\<exists>r. s = p @ r)"
  by (induction s p rule: startsWith.induct) auto

lemma str_includes_iff: "str_includes s p \<longleftrightarrow> (\<exists>a b. s = a @ p @ b)"
proof (induction s)
  case Nil
  then show ?case by simp
next
  case (Cons c cs)
  show ?case
  proof
    assume "str_includes (c # cs) p"
    then consider "startsWith (c # cs) p" | "str_includes cs p" by auto
    then show "\<exists>a b. c # cs = a @ p @ b"
    proof cases
      case 1
      then obtain r where "c # cs = p @ r" by (auto simp: startsWith_iff)
      then have "c # cs = [] @ p @ r" by simp
      then show ?thesis by blast
    next
      case 2
      then obtain a b where "cs = a @ p @ b" using Cons.IH by blast
      then have "c # cs = (c # a) @ p @ b" by simp
      then show ?thesis by blast
    qed
  next
    assume "\<exists>a b. c # cs = a @ p @ b"
    then obtain a b where ab: "c # cs = a @ p @ b" by blast
    show "str_includes (c # cs) p"
    proof (cases a)
      case Nil
      then have "startsWith (c # cs) p" using ab by (auto simp: startsWith_iff)
      then show ?thesis by simp
    next
      case (Cons a0 as)
      then have "cs = as @ p @ b" using ab by simp
      then have "str_includes cs p" using Cons.IH by blast
      then show ?thesis by simp
    qed
  qed
qed

lemma str_includes_suffix: "str_includes (a @ p) p"
  by (metis append_Nil2 str_includes_iff)

lemma insert_hist_not_promo:
  "startsWith q ''INSERT INTO historico_promocoes'' \<Longrightarrow> \<not> startsWith q ''INSERT INTO promocoes''"
  by (auto simp: startsWith_iff)

lemma json_obj_keys: "fst ` set (json_obj kvs) \<subseteq> fst ` set kvs"
  by (induction kvs rule: json_obj.induct) auto

lemma field_json_obj:
  "distinct (map fst kvs) \<Longrightarrow> field (json_obj kvs) k = (case map_of kvs k of None \<Rightarrow> None | Some v \<Rightarrow> v)"
proof (induction kvs rule: json_obj.induct)
  case 1
  then show ?case by (simp add: field_def)
next
  case (2 k' kvs)
  have "k' \<notin> fst ` set (json_obj kvs)" using 2(2) json_obj_keys[of kvs] by auto
  then have "map_of (json_obj kvs) k' = None" by (simp add: map_of_eq_None_iff)
  then show ?case using 2 by (auto simp: field_def)
next
  case (3 k' v kvs)
  then show ?case by (auto simp: field_def)
qed

lemma field_assign_other: "k' \<noteq> k \<Longrightarrow> field (assign ob k v) k' = field ob k'"
proof (cases v)
  case None
  assume "k' \<noteq> k"
  then have "map_of (filter (\<lambda>kv. fst kv \<noteq> k) ob) k' = map_of ob k'"
    by (induction ob) auto
  then show ?thesis using None by (simp add: assign_def field_def)
next
  case (Some w)
  assume "k' \<noteq> k"
  then have "map_of (put k w ob) k' = map_of ob k'"
    by (induction ob) auto
  then show ?thesis using Some by (simp add: assign_def field_def)
qed

lemma field_assign_same: "field (assign ob k v) k = v"
proof (cases v)
  case None
  have "map_of (filter (\<lambda>kv. fst kv \<noteq> k) ob) k = None"
    by (induction ob) auto
  then show ?thesis using None by (simp add: assign_def field_def)
next
  case (Some w)
  have "map_of (put k w ob) k = Some w"
    by (induction ob) auto
  then show ?thesis using Some by (simp add: assign_def field_def)
qed

section \<open>The branches of the adapter\<close>

lemma update_not_insert:
  "startsWith q ''UPDATE promocoes'' \<Longrightarrow>
     \<not> startsWith q ''INSERT INTO promocoes'' \<and> \<not> startsWith q ''INSERT INTO historico_promocoes''"
  by (auto simp: startsWith_iff)

lemma delete_not_others:
  "startsWith q ''DELETE FROM promocoes'' \<Longrightarrow>
     \<not> startsWith q ''INSERT INTO promocoes'' \<and> \<not> startsWith q ''INSERT INTO historico_promocoes''
     \<and> \<not> startsWith q ''UPDATE promocoes''"
  by (auto simp: startsWith_iff)

lemma run_insert_promocoes:
  assumes "startsWith q ''INSERT INTO promocoes''"
  shows "runAsync env st q ps =
    (\<lparr>lastInsertRowId = next_id env (promocoes_of st), changes = 1\<rparr>,
     Some \<lparr>promocoes = promocoes_of st @
              [json_obj
                 [(''id'', Some (num_json (next_id env (promocoes_of st)))),
                  (''produto_id'', param ps 0),
                  (''produto_nome'', param ps 1),
                  (''desconto'', param ps 2),
                  (''data_inicio'', param ps 3),
                  (''data_fim'', param ps 4),
                  (''data_criacao'', param ps 5),
                  (''status'', param ps 6),
                  (''data_expiracao'', Some JNull)]],
           historico_promocoes = historico_of st\<rparr>)"
  using assms
  by (cases st) (simp_all add: runAsync_def promocoes_of_def historico_of_def Let_def)

lemma run_insert_historico:
  assumes "startsWith q ''INSERT INTO historico_promocoes''"
  shows "runAsync env st q ps =
    (\<lparr>lastInsertRowId = next_id env (historico_of st), changes = 1\<rparr>,
     Some \<lparr>promocoes = promocoes_of st,
           historico_promocoes = historico_of st @
              [json_obj
                 [(''id'', Some (num_json (next_id env (historico_of st)))),
                  (''promocao_id'', param ps 0),
                  (''produto_nome'', param ps 1),
                  (''desconto'', param ps 2),
                  (''data_inicio'', param ps 3),
                  (''data_fim'', param ps 4),
                  (''acao'', param ps 5),
                  (''data_acao'', param ps 6)]]\<rparr>)"
  using assms insert_hist_not_promo[OF assms]
  by (cases st) (simp_all add: runAsync_def promocoes_of_def historico_of_def Let_def)

lemma impl_run_insert_promocoes:
  assumes "startsWith q ''INSERT INTO promocoes''"
  shows "impl_runAsync env st q ps =
    (\<lparr>lastInsertRowId = next_id env (promocoes_of st), changes = 1\<rparr>,
     Some \<lparr>promocoes = promocoes_of st @
              [json_obj
                 [(''id'', Some (num_json (next_id env (promocoes_of st)))),
                  (''produto_id'', param ps 0),
                  (''produto_nome'', param ps 1),
                  (''desconto'', param ps 2),
                  (''data_inicio'', param ps 3),
                  (''data_fim'', param ps 4),
                  (''data_criacao'', param ps 5),
                  (''status'', param ps 6)]],
           historico_promocoes = historico_of st\<rparr>)"
  using assms
  by (cases st) (simp_all add: impl_runAsync_def promocoes_of_def historico_of_def Let_def)

lemma impl_run_insert_historico:
  assumes "startsWith q ''INSERT INTO historico_promocoes''"
  shows "impl_runAsync env st q ps =
    (\<lparr>lastInsertRowId = next_id env (historico_of st), changes = 1\<rparr>,
     Some \<lparr>promocoes = promocoes_of st,
           historico_promocoes = historico_of st @
              [json_obj
                 [(''id'', Some (num_json (next_id env (historico_of st)))),
                  (''promocao_id'', param ps 0),
                  (''produto_nome'', param ps 1),
                  (''desconto'', param ps 2),
                  (''data_inicio'', param ps 3),
                  (''data_fim'', param ps 4),
                  (''acao'', param ps 5),
                  (''data_acao'', param ps 6)]]\<rparr>)"
  using assms insert_hist_not_promo[OF assms]
  by (cases st) (simp_all add: impl_runAsync_def promocoes_of_def historico_of_def Let_def)

lemma impl_nova_promocao_id:
  "field (json_obj [(''id'', i), (''produto_id'', a), (''produto_nome'', b), (''desconto'', c),
      (''data_inicio'', d), (''data_fim'', e), (''data_criacao'', f), (''status'', g)]) ''id'' = i"
  by (simp add: field_json_obj split: option.splits)

lemma ids_update_first:
  "(\<And>r. field (f r) ''id'' = field r ''id'') \<Longrightarrow>
     map (\<lambda>p. field p ''id'') (update_first P f rs) = map (\<lambda>p. field p ''id'') rs"
  by (induction rs) auto

lemma id_expirar: "field (expirar h p) ''id'' = field p ''id''"
  by (simp add: expirar_def field_assign_other)

lemma id_update_generico: "field (update_generico q ps p) ''id'' = field p ''id''"
  by (simp add: update_generico_def Let_def field_assign_other)

lemma run_update:
  assumes "startsWith q ''UPDATE promocoes''"
  shows "historico_of (snd (runAsync env st q ps)) = historico_of st"
    and "map (\<lambda>p. field p ''id'') (promocoes_of (snd (runAsync env st q ps)))
         = map (\<lambda>p. field p ''id'') (promocoes_of st)"
  using assms update_not_insert[OF assms]
  by (cases st; simp add: runAsync_def promocoes_of_def historico_of_def Let_def
        ids_update_first id_expirar id_update_generico comp_def)+

lemma run_delete:
  assumes "startsWith q ''DELETE FROM promocoes''"
  shows "snd (runAsync env st q ps) =
     Some \<lparr>promocoes = filter (\<lambda>p. field p ''id'' \<noteq> param ps 0) (promocoes_of st),
           historico_promocoes = historico_of st\<rparr>"
  using assms delete_not_others[OF assms]
  by (cases st) (simp_all add: runAsync_def promocoes_of_def historico_of_def Let_def)


subsection \<open>Which branch each statement of the service takes\<close>

lemma todas_promocoes_padroes:
  \<open>str_includes sql_todas_promocoes ''SELECT * FROM promocoes'' = False \<and>
   str_includes sql_todas_promocoes ''SELECT * FROM historico_promocoes'' = False \<and>
   str_includes sql_todas_promocoes ''SELECT COUNT(*) as count FROM promocoes'' = False \<and>
   str_includes sql_todas_promocoes ''SELECT COUNT(*) as count FROM promocoes WHERE status = "ativa"'' = False \<and>
   str_includes sql_todas_promocoes ''SELECT COUNT(*) as count FROM promocoes WHERE status = "expirada"'' = False \<and>
   str_includes sql_todas_promocoes (''SELECT COUNT(*) as count FROM historico_promocoes WHERE acao = "'' @ excluida @ ''"'') = False \<and>
   str_includes sql_todas_promocoes (''WHERE data_fim < ? AND status = 'ativa'' @ [CHR 0x27]) = False \<and>
   str_includes sql_todas_promocoes ''WHERE id = ?'' = False \<and>
   str_includes sql_todas_promocoes ''WHERE promocao_id = ? AND acao = "expirada"'' = False \<and>
   str_includes sql_todas_promocoes ''ORDER BY data_criacao DESC'' = True\<close>
  by code_simp

lemma getAll_todas_promocoes:
  "getAllAsync env (Some db) sql_todas_promocoes ps =
     sort_by (cmp_desc env ''data_criacao'') (promocoes db)"
  unfolding getAllAsync_def
  by (simp only: todas_promocoes_padroes if_True if_False option.case Let_def)

lemma historico_completo_padroes:
  \<open>str_includes sql_historico_completo ''SELECT * FROM promocoes'' = False \<and>
   str_includes sql_historico_completo ''SELECT * FROM historico_promocoes'' = False \<and>
   str_includes sql_historico_completo ''SELECT COUNT(*) as count FROM promocoes'' = False \<and>
   str_includes sql_historico_completo ''SELECT COUNT(*) as count FROM promocoes WHERE status = "ativa"'' = False \<and>
   str_includes sql_historico_completo ''SELECT COUNT(*) as count FROM promocoes WHERE status = "expirada"'' = False \<and>
   str_includes sql_historico_completo (''SELECT COUNT(*) as count FROM historico_promocoes WHERE acao = "'' @ excluida @ ''"'') = False \<and>
   str_includes sql_historico_completo (''WHERE data_fim < ? AND status = 'ativa'' @ [CHR 0x27]) = False \<and>
   str_includes sql_historico_completo ''WHERE id = ?'' = False \<and>
   str_includes sql_historico_completo ''WHERE promocao_id = ? AND acao = "expirada"'' = False \<and>
   str_includes sql_historico_completo ''ORDER BY data_criacao DESC'' = False \<and>
   str_includes sql_historico_completo ''ORDER BY data_acao DESC'' = True\<close>
  by code_simp

lemma getAll_historico_completo:
  "getAllAsync env (Some db) sql_historico_completo ps =
     sort_by (cmp_desc env ''data_acao'') (historico_promocoes db)"
  unfolding getAllAsync_def
  by (simp only: historico_completo_padroes if_True if_False option.case Let_def)

lemma expiradas_hoje_padroes:
  \<open>str_includes sql_expiradas_hoje ''SELECT * FROM promocoes'' = False \<and>
   str_includes sql_expiradas_hoje ''SELECT * FROM historico_promocoes'' = False \<and>
   str_includes sql_expiradas_hoje ''SELECT COUNT(*) as count FROM promocoes'' = False \<and>
   str_includes sql_expiradas_hoje ''SELECT COUNT(*) as count FROM promocoes WHERE status = "ativa"'' = False \<and>
   str_includes sql_expiradas_hoje ''SELECT COUNT(*) as count FROM promocoes WHERE status = "expirada"'' = False \<and>
   str_includes sql_expiradas_hoje (''SELECT COUNT(*) as count FROM historico_promocoes WHERE acao = "'' @ excluida @ ''"'') = False \<and>
   str_includes sql_expiradas_hoje (''WHERE data_fim < ? AND status = 'ativa'' @ [CHR 0x27]) = False \<and>
   str_includes sql_expiradas_hoje ''WHERE id = ?'' = False \<and>
   str_includes sql_expiradas_hoje ''WHERE promocao_id = ? AND acao = "expirada"'' = False \<and>
   str_includes sql_expiradas_hoje ''ORDER BY data_criacao DESC'' = False \<and>
   str_includes sql_expiradas_hoje ''ORDER BY data_acao DESC'' = False\<close>
  by code_simp

lemma getAll_expiradas_hoje:
  "getAllAsync env (Some db) sql_expiradas_hoje ps =
     []"
  unfolding getAllAsync_def
  by (simp only: expiradas_hoje_padroes if_True if_False option.case Let_def)

lemma existe_no_historico_padroes:
  \<open>str_includes sql_existe_no_historico ''SELECT * FROM promocoes'' = False \<and>
   str_includes sql_existe_no_historico ''SELECT * FROM historico_promocoes'' = False \<and>
   str_includes sql_existe_no_historico ''SELECT COUNT(*) as count FROM promocoes'' = False \<and>
   str_includes sql_existe_no_historico ''SELECT COUNT(*) as count FROM promocoes WHERE status = "ativa"'' = False \<and>
   str_includes sql_existe_no_historico ''SELECT COUNT(*) as count FROM promocoes WHERE status = "expirada"'' = False \<and>
   str_includes sql_existe_no_historico (''SELECT COUNT(*) as count FROM historico_promocoes WHERE acao = "'' @ excluida @ ''"'') = False \<and>
   str_includes sql_existe_no_historico (''WHERE data_fim < ? AND status = 'ativa'' @ [CHR 0x27]) = False \<and>
   str_includes sql_existe_no_historico ''WHERE id = ?'' = False \<and>
   str_includes sql_existe_no_historico ''WHERE promocao_id = ? AND acao = "expirada"'' = True\<close>
  by code_simp

lemma getAll_existe_no_historico:
  "getAllAsync env (Some db) sql_existe_no_historico ps =
     filter (\<lambda>h. field h ''promocao_id'' = param ps 0 \<and> field h ''acao'' = Some (JStr ''expirada'')) (historico_promocoes db)"
  unfolding getAllAsync_def
  by (simp only: existe_no_historico_padroes if_True if_False option.case Let_def)

lemma por_status_padroes:
  \<open>str_includes sql_por_status ''SELECT * FROM promocoes'' = False \<and>
   str_includes sql_por_status ''SELECT * FROM historico_promocoes'' = False \<and>
   str_includes sql_por_status ''SELECT COUNT(*) as count FROM promocoes'' = False \<and>
   str_includes sql_por_status ''SELECT COUNT(*) as count FROM promocoes WHERE status = "ativa"'' = False \<and>
   str_includes sql_por_status ''SELECT COUNT(*) as count FROM promocoes WHERE status = "expirada"'' = False \<and>
   str_includes sql_por_status (''SELECT COUNT(*) as count FROM historico_promocoes WHERE acao = "'' @ excluida @ ''"'') = False \<and>
   str_includes sql_por_status (''WHERE data_fim < ? AND status = 'ativa'' @ [CHR 0x27]) = False \<and>
   str_includes sql_por_status ''WHERE id = ?'' = False \<and>
   str_includes sql_por_status ''WHERE promocao_id = ? AND acao = "expirada"'' = False \<and>
   str_includes sql_por_status ''ORDER BY data_criacao DESC'' = True\<close>
  by code_simp

lemma getAll_por_status:
  "getAllAsync env (Some db) sql_por_status ps =
     sort_by (cmp_desc env ''data_criacao'') (promocoes db)"
  unfolding getAllAsync_def
  by (simp only: por_status_padroes if_True if_False option.case Let_def)

lemma por_id_padroes:
  \<open>str_includes sql_por_id ''SELECT * FROM promocoes'' = False \<and>
   str_includes sql_por_id ''SELECT * FROM historico_promocoes'' = False \<and>
   str_includes sql_por_id ''SELECT COUNT(*) as count FROM promocoes'' = False \<and>
   str_includes sql_por_id ''SELECT COUNT(*) as count FROM promocoes WHERE status = "ativa"'' = False \<and>
   str_includes sql_por_id ''SELECT COUNT(*) as count FROM promocoes WHERE status = "expirada"'' = False \<and>
   str_includes sql_por_id (''SELECT COUNT(*) as count FROM historico_promocoes WHERE acao = "'' @ excluida @ ''"'') = False \<and>
   str_includes sql_por_id (''WHERE data_fim < ? AND status = 'ativa'' @ [CHR 0x27]) = False \<and>
   str_includes sql_por_id ''WHERE id = ?'' = True\<close>
  by code_simp

lemma getAll_por_id:
  "getAllAsync env (Some db) sql_por_id ps =
     filter (\<lambda>p. field p ''id'' = param ps 0) (promocoes db)"
  unfolding getAllAsync_def
  by (simp only: por_id_padroes if_True if_False option.case Let_def)

lemma count_total_padroes:
  \<open>str_includes sql_count_total ''SELECT * FROM promocoes'' = False \<and>
   str_includes sql_count_total ''SELECT * FROM historico_promocoes'' = False \<and>
   str_includes sql_count_total ''SELECT COUNT(*) as count FROM promocoes'' = True\<close>
  by code_simp

lemma getAll_count_total:
  "getAllAsync env (Some db) sql_count_total ps =
     [[(''count'', JNum (int (length (promocoes db))))]]"
  unfolding getAllAsync_def
  by (simp only: count_total_padroes if_True if_False option.case Let_def)

lemma count_ativas_padroes:
  \<open>str_includes sql_count_ativas ''SELECT * FROM promocoes'' = False \<and>
   str_includes sql_count_ativas ''SELECT * FROM historico_promocoes'' = False \<and>
   str_includes sql_count_ativas ''SELECT COUNT(*) as count FROM promocoes'' = True\<close>
  by code_simp

lemma getAll_count_ativas:
  "getAllAsync env (Some db) sql_count_ativas ps =
     [[(''count'', JNum (int (length (promocoes db))))]]"
  unfolding getAllAsync_def
  by (simp only: count_ativas_padroes if_True if_False option.case Let_def)

lemma count_expiradas_padroes:
  \<open>str_includes sql_count_expiradas ''SELECT * FROM promocoes'' = False \<and>
   str_includes sql_count_expiradas ''SELECT * FROM historico_promocoes'' = False \<and>
   str_includes sql_count_expiradas ''SELECT COUNT(*) as count FROM promocoes'' = True\<close>
  by code_simp

lemma getAll_count_expiradas:
  "getAllAsync env (Some db) sql_count_expiradas ps =
     [[(''count'', JNum (int (length (promocoes db))))]]"
  unfolding getAllAsync_def
  by (simp only: count_expiradas_padroes if_True if_False option.case Let_def)

lemma count_canceladas_padroes:
  \<open>str_includes sql_count_canceladas ''SELECT * FROM promocoes'' = False \<and>
   str_includes sql_count_canceladas ''SELECT * FROM historico_promocoes'' = False \<and>
   str_includes sql_count_canceladas ''SELECT COUNT(*) as count FROM promocoes'' = False \<and>
   str_includes sql_count_canceladas ''SELECT COUNT(*) as count FROM promocoes WHERE status = "ativa"'' = False \<and>
   str_includes sql_count_canceladas ''SELECT COUNT(*) as count FROM promocoes WHERE status = "expirada"'' = False \<and>
   str_includes sql_count_canceladas (''SELECT COUNT(*) as count FROM historico_promocoes WHERE acao = "'' @ excluida @ ''"'') = True\<close>
  by code_simp

lemma getAll_count_canceladas:
  "getAllAsync env (Some db) sql_count_canceladas ps =
     [[(''count'', JNum (int (length (filter (\<lambda>h. field h ''acao'' = Some (JStr excluida)) (historico_promocoes db)))))]]"
  unfolding getAllAsync_def
  by (simp only: count_canceladas_padroes if_True if_False option.case Let_def)

lemma getFirst_count:
  "count_ou_zero (case [[(''count'', JNum n)]] of [] \<Rightarrow> None | r # rs \<Rightarrow> Some r) = JNum n"
  by (simp add: count_ou_zero_def field_def)

lemma estatisticas_web:
  "obterEstatisticasPromocoes env st =
     \<lparr>total = JNum (int (length (promocoes_of st))),
      ativas = JNum (int (length (promocoes_of st))),
      expiradas = JNum (int (length (promocoes_of st))),
      canceladas = JNum (int (length
        (filter (\<lambda>h. field h ''acao'' = Some (JStr excluida)) (historico_of st))))\<rparr>"
proof (cases st)
  case None
  then show ?thesis
    by (simp add: obterEstatisticasPromocoes_def getFirstAsync_def getAllAsync_def
        count_ou_zero_def promocoes_of_def historico_of_def)
next
  case (Some db)
  then show ?thesis
    by (simp add: obterEstatisticasPromocoes_def getFirstAsync_def getAll_count_total
        getAll_count_ativas getAll_count_expiradas getAll_count_canceladas
        count_ou_zero_def field_def promocoes_of_def historico_of_def)
qed


lemma historico_starts:
  "startsWith sql_historico_criada ''INSERT INTO historico_promocoes''"
  "startsWith sql_historico_atualizada ''INSERT INTO historico_promocoes''"
  "startsWith sql_historico_excluida ''INSERT INTO historico_promocoes''"
  "startsWith sql_historico_expirada ''INSERT INTO historico_promocoes''"
  "startsWith sql_inserir_promocao ''INSERT INTO promocoes''"
  "startsWith sql_excluir ''DELETE FROM promocoes''"
  "startsWith sql_expirar_vencidas ''UPDATE promocoes''"
  by code_simp+


lemma getAll_None [simp]: "getAllAsync env None q ps = []"
  by (simp add: getAllAsync_def)

lemma existe_no_historico:
  "getFirstAsync env st sql_existe_no_historico [k] = None \<longleftrightarrow> n_expirada k (historico_of st) = 0"
  by (cases st)
     (auto simp: getFirstAsync_def getAll_existe_no_historico n_expirada_def historico_of_def param_def
           split: list.splits)

lemma novo_historico_campos:
  "field (json_obj [(''id'', i), (''promocao_id'', a), (''produto_nome'', b), (''desconto'', c),
      (''data_inicio'', d), (''data_fim'', e), (''acao'', f), (''data_acao'', g)]) ''promocao_id'' = a"
  "field (json_obj [(''id'', i), (''promocao_id'', a), (''produto_nome'', b), (''desconto'', c),
      (''data_inicio'', d), (''data_fim'', e), (''acao'', f), (''data_acao'', g)]) ''produto_nome'' = b"
  "field (json_obj [(''id'', i), (''promocao_id'', a), (''produto_nome'', b), (''desconto'', c),
      (''data_inicio'', d), (''data_fim'', e), (''acao'', f), (''data_acao'', g)]) ''desconto'' = c"
  "field (json_obj [(''id'', i), (''promocao_id'', a), (''produto_nome'', b), (''desconto'', c),
      (''data_inicio'', d), (''data_fim'', e), (''acao'', f), (''data_acao'', g)]) ''data_inicio'' = d"
  "field (json_obj [(''id'', i), (''promocao_id'', a), (''produto_nome'', b), (''desconto'', c),
      (''data_inicio'', d), (''data_fim'', e), (''acao'', f), (''data_acao'', g)]) ''data_fim'' = e"
  "field (json_obj [(''id'', i), (''promocao_id'', a), (''produto_nome'', b), (''desconto'', c),
      (''data_inicio'', d), (''data_fim'', e), (''acao'', f), (''data_acao'', g)]) ''acao'' = f"
  "field (json_obj [(''id'', i), (''promocao_id'', a), (''produto_nome'', b), (''desconto'', c),
      (''data_inicio'', d), (''data_fim'', e), (''acao'', f), (''data_acao'', g)]) ''data_acao'' = g"
  by (simp_all add: field_json_obj split: option.splits)

lemma passo_expirada:
  "n_expirada k (historico_of (snd (runAsync env st sql_historico_expirada
      [k', a, b, c, d, Some (JStr ''expirada''), e]))) =
   n_expirada k (historico_of st) + (if k' = k then 1 else 0)"
  by (simp add: run_insert_historico[OF historico_starts(4)] historico_of_def n_expirada_def
        param_def novo_historico_campos del: json_obj.simps)

lemma registrar_expiradas_guarda:
  "(n_expirada k (historico_of st) = 0 \<longrightarrow>
      n_expirada k (historico_of (registrar_expiradas env hoje rows st)) \<le> 1) \<and>
   (1 \<le> n_expirada k (historico_of st) \<longrightarrow>
      n_expirada k (historico_of (registrar_expiradas env hoje rows st)) = n_expirada k (historico_of st))"
proof (induction rows arbitrary: st)
  case Nil
  then show ?case by simp
next
  case (Cons promocao resto)
  let ?k' = "field promocao ''id''"
  let ?ins = "snd (runAsync env st sql_historico_expirada
                 [?k', field promocao ''produtoNome'', field promocao ''desconto'',
                  field promocao ''dataInicio'', field promocao ''dataFim'',
                  Some (JStr ''expirada''), Some (JStr hoje)])"
  show ?case
  proof (cases "n_expirada ?k' (historico_of st) = 0")
    case True
    then have step: "registrar_expiradas env hoje (promocao # resto) st = registrar_expiradas env hoje resto ?ins"
      by (simp add: existe_no_historico Let_def)
    have n: "n_expirada k (historico_of ?ins) = n_expirada k (historico_of st) + (if ?k' = k then 1 else 0)"
      by (rule passo_expirada)
    show ?thesis
      using Cons.IH[of ?ins] True unfolding step n by (auto split: if_splits)
  next
    case False
    then have step: "registrar_expiradas env hoje (promocao # resto) st = registrar_expiradas env hoje resto st"
      by (simp add: existe_no_historico Let_def)
    show ?thesis using Cons.IH[of st] unfolding step by simp
  qed
qed

lemma registrar_expiradas_acrescenta:
  "\<exists>novos. historico_of (registrar_expiradas env hoje rows st) = historico_of st @ novos"
proof (induction rows arbitrary: st)
  case Nil
  then show ?case by simp
next
  case (Cons promocao resto)
  let ?ins = "snd (runAsync env st sql_historico_expirada
                 [field promocao ''id'', field promocao ''produtoNome'', field promocao ''desconto'',
                  field promocao ''dataInicio'', field promocao ''dataFim'',
                  Some (JStr ''expirada''), Some (JStr hoje)])"
  have ins: "\<exists>n. historico_of ?ins = historico_of st @ n"
    by (simp add: run_insert_historico[OF historico_starts(4)] historico_of_def)
  show ?case
  proof (cases "getFirstAsync env st sql_existe_no_historico [field promocao ''id''] = None")
    case True
    then have "registrar_expiradas env hoje (promocao # resto) st = registrar_expiradas env hoje resto ?ins"
      by (simp add: Let_def)
    then show ?thesis using Cons.IH[of ?ins] ins by (metis append.assoc)
  next
    case False
    then have "registrar_expiradas env hoje (promocao # resto) st = registrar_expiradas env hoje resto st"
      by (auto simp add: Let_def)
    then show ?thesis using Cons.IH[of st] by simp
  qed
qed

lemma sweep_historico:
  "atualizarStatusPromocoes env hoje st =
     registrar_expiradas env hoje
       (getAllAsync env (snd (runAsync env st sql_expirar_vencidas [Some (JStr hoje), Some (JStr hoje)]))
          sql_expiradas_hoje [Some (JStr hoje)])
       (snd (runAsync env st sql_expirar_vencidas [Some (JStr hoje), Some (JStr hoje)]))"
  by (simp add: atualizarStatusPromocoes_def case_prod_beta Let_def)

lemma sweep_guarda:
  "(n_expirada k (historico_of st) = 0 \<longrightarrow>
      n_expirada k (historico_of (atualizarStatusPromocoes env hoje st)) \<le> 1) \<and>
   (1 \<le> n_expirada k (historico_of st) \<longrightarrow>
      n_expirada k (historico_of (atualizarStatusPromocoes env hoje st)) = n_expirada k (historico_of st))"
  unfolding sweep_historico
  using registrar_expiradas_guarda[of k "snd (runAsync env st sql_expirar_vencidas [Some (JStr hoje), Some (JStr hoje)])"]
    run_update(1)[OF historico_starts(7), of env st "[Some (JStr hoje), Some (JStr hoje)]"]
  by simp


text \<open>
  The read of the sweep is not among the patterns of the adapter and returns no row, so
  the loop of the sweep has nothing to go through.
\<close>

lemma sweep_web_historico:
  "historico_of (atualizarStatusPromocoes env hoje st) = historico_of st"
proof -
  let ?st1 = "snd (runAsync env st sql_expirar_vencidas [Some (JStr hoje), Some (JStr hoje)])"
  have "getAllAsync env ?st1 sql_expiradas_hoje [Some (JStr hoje)] = []"
    by (cases ?st1) (simp_all add: getAll_expiradas_hoje)
  then have "atualizarStatusPromocoes env hoje st = ?st1"
    by (simp add: sweep_historico)
  then show ?thesis
    by (simp add: run_update(1)[OF historico_starts(7)])
qed

lemma n_expirada_cafe:
  "n_expirada (Some (JNum 1)) [historico_cafe ''expirada'' dia] = 1"
  by (simp add: n_expirada_def historico_cafe_def field_def)

section \<open>The operations of the service on the adapter\<close>

lemma nova_promocao_campos:
  "field (json_obj [(''id'', i), (''produto_id'', a), (''produto_nome'', b), (''desconto'', c),
      (''data_inicio'', d), (''data_fim'', e), (''data_criacao'', f), (''status'', g),
      (''data_expiracao'', h)]) ''id'' = i"
  "field (json_obj [(''id'', i), (''produto_id'', a), (''produto_nome'', b), (''desconto'', c),
      (''data_inicio'', d), (''data_fim'', e), (''data_criacao'', f), (''status'', g),
      (''data_expiracao'', h)]) ''status'' = g"
  by (simp_all add: field_json_obj split: option.splits)

lemma novo_historico_id:
  "field (json_obj [(''id'', i), (''promocao_id'', a), (''produto_nome'', b), (''desconto'', c),
      (''data_inicio'', d), (''data_fim'', e), (''acao'', f), (''data_acao'', g)]) ''id'' = i"
  by (simp add: field_json_obj split: option.splits)

lemma por_id_filter:
  "buscarPromocaoPorId env st ident =
     (case filter (\<lambda>p. field p ''id'' = Some (JNum ident)) (promocoes_of st) of
        [] \<Rightarrow> None | r # rs \<Rightarrow> Some r)"
  by (cases st) (simp_all add: buscarPromocaoPorId_def getFirstAsync_def getAll_por_id
        promocoes_of_def param_def)




lemma set_insert_by: "set (insert_by cmp x ys) = insert x (set ys)"
  by (induction ys) auto

lemma set_sort_by: "set (sort_by cmp xs) = set xs"
  by (induction xs) (simp_all add: sort_by_def set_insert_by)

lemma todas_set: "set (buscarTodasPromocoes env st) = set (promocoes_of st)"
  by (cases st) (simp_all add: buscarTodasPromocoes_def getAll_todas_promocoes promocoes_of_def set_sort_by)

lemma por_status_set: "set (buscarPromocoesPorStatus env st s) = set (promocoes_of st)"
  by (cases st) (simp_all add: buscarPromocoesPorStatus_def getAll_por_status promocoes_of_def set_sort_by)

lemma excluir_existente:
  assumes "buscarPromocaoPorId env st ident = Some promocao"
  shows "excluirPromocao env hoje ident st =
     Some \<lparr>promocoes = filter (\<lambda>p. field p ''id'' \<noteq> Some (JNum ident)) (promocoes_of st),
           historico_promocoes = historico_of st @
             [json_obj
               [(''id'', Some (num_json (next_id env (historico_of st)))),
                (''promocao_id'', Some (JNum ident)),
                (''produto_nome'', field promocao ''produtoNome''),
                (''desconto'', field promocao ''desconto''),
                (''data_inicio'', field promocao ''dataInicio''),
                (''data_fim'', field promocao ''dataFim''),
                (''acao'', Some (JStr excluida)),
                (''data_acao'', Some (JStr hoje))]]\<rparr>"
  using assms
  by (simp add: excluirPromocao_def Let_def run_delete[OF historico_starts(6)]
        run_insert_historico[OF historico_starts(3)]
        promocoes_of_def[of "Some x" for x] historico_of_def[of "Some x" for x] param_def
        del: json_obj.simps)

lemma excluir_inexistente:
  assumes "buscarPromocaoPorId env st ident = None"
  shows "excluirPromocao env hoje ident st =
     Some \<lparr>promocoes = filter (\<lambda>p. field p ''id'' \<noteq> Some (JNum ident)) (promocoes_of st),
           historico_promocoes = historico_of st\<rparr>"
  using assms
  by (simp add: excluirPromocao_def Let_def run_delete[OF historico_starts(6)] param_def)

lemma por_id_None_iff:
  "buscarPromocaoPorId env st ident = None \<longleftrightarrow>
     \<not> (\<exists>p \<in> set (promocoes_of st). field p ''id'' = Some (JNum ident))"
proof -
  have "buscarPromocaoPorId env st ident = None \<longleftrightarrow>
          filter (\<lambda>p. field p ''id'' = Some (JNum ident)) (promocoes_of st) = []"
    unfolding por_id_filter by (simp split: list.splits)
  then show ?thesis by (simp add: filter_empty_conv)
qed

lemma run_acrescenta:
  "\<exists>novos. historico_of (snd (runAsync env st q ps)) = historico_of st @ novos"
proof -
  consider "startsWith q ''INSERT INTO promocoes''"
    | "startsWith q ''INSERT INTO historico_promocoes''"
    | "startsWith q ''UPDATE promocoes''"
    | "startsWith q ''DELETE FROM promocoes''"
    | "\<not> startsWith q ''INSERT INTO promocoes'' \<and> \<not> startsWith q ''INSERT INTO historico_promocoes''
       \<and> \<not> startsWith q ''UPDATE promocoes'' \<and> \<not> startsWith q ''DELETE FROM promocoes''"
    by auto
  then show ?thesis
  proof cases
    case 1
    then show ?thesis by (simp add: run_insert_promocoes historico_of_def[of "Some x" for x])
  next
    case 2
    then show ?thesis by (simp add: run_insert_historico historico_of_def[of "Some x" for x])
  next
    case 3
    then show ?thesis by (simp add: run_update(1))
  next
    case 4
    then show ?thesis by (simp add: run_delete historico_of_def[of "Some x" for x])
  next
    case 5
    then have "runAsync env st q ps = (\<lparr>lastInsertRowId = Some 0, changes = 0\<rparr>, st)"
      by (cases st) (simp_all add: runAsync_def)
    then show ?thesis by simp
  qed
qed

lemma acrescenta_trans:
  "\<exists>n. b = a @ n \<Longrightarrow> \<exists>n. c = b @ n \<Longrightarrow> \<exists>n. (c :: obj list) = a @ n"
  by auto

lemma ids_numericos_map:
  "ids_numericos rows \<Longrightarrow> map (\<lambda>r. to_number env (field r ''id'')) rows = map Some (ids_de rows)"
proof (induction rows)
  case Nil
  then show ?case by (simp add: ids_de_def)
next
  case (Cons r rows)
  then obtain n where n: "field r ''id'' = Some (JNum n)"
    by (auto simp: ids_numericos_def id_num_def split: option.splits json.splits)
  then have "ids_de (r # rows) = n # ids_de rows"
    by (simp add: ids_de_def id_num_def)
  then show ?case using Cons n by (simp add: ids_numericos_def)
qed

lemma ids_de_Nil_iff: "ids_numericos rows \<Longrightarrow> ids_de rows = [] \<longleftrightarrow> rows = []"
  using ids_numericos_map[of rows env_exemplo] by (metis map_is_Nil_conv)

lemma math_max_Some: "ns \<noteq> [] \<Longrightarrow> math_max (map Some ns) = Some (Max (set ns))"
proof (induction ns rule: list_nonempty_induct)
  case (single n)
  then show ?case by simp
next
  case (cons n ns)
  then obtain m ms where ms: "ns = m # ms" by (cases ns) auto
  have "math_max (map Some (n # m # ms)) = Some (max n (Max (set (m # ms))))"
    using cons.IH unfolding ms by simp
  then show ?case unfolding ms by (simp add: max.commute)
qed

lemma bits_le: "n < 2 ^ k \<Longrightarrow> bits n \<le> k"
proof (induction k arbitrary: n)
  case 0
  then show ?case by (simp add: bits.simps)
next
  case (Suc k)
  show ?case
  proof (cases "n = 0")
    case True
    then show ?thesis by (simp add: bits.simps)
  next
    case False
    have "n div 2 < 2 ^ k" using Suc.prems by auto
    then have "bits (n div 2) \<le> k" by (rule Suc.IH)
    then show ?thesis using False by (subst bits.simps) simp
  qed
qed

lemma arredondar_exato: "\<bar>x\<bar> < 9007199254740992 \<Longrightarrow> arredondar x = x"
proof -
  assume "\<bar>x\<bar> < 9007199254740992"
  then have "nat \<bar>x\<bar> < 2 ^ 53" by simp
  then have "bits (nat \<bar>x\<bar>) \<le> 53" by (rule bits_le)
  then have "bits (nat \<bar>x\<bar>) - 53 = 0" by simp
  then show ?thesis unfolding arredondar_def Let_def by (simp only: refl if_True)
qed

lemma bits_2_53:
  "bits 9007199254740992 = 54"
  "bits 9007199254740993 = 54"
  by (simp_all add: bits.simps)

lemma arredondar_2_53:
  "arredondar 9007199254740992 = 9007199254740992"
  "arredondar 9007199254740993 = 9007199254740992"
  unfolding arredondar_def Let_def by (simp_all add: bits_2_53)

lemma arredondar_mais_um:
  assumes "\<bar>m\<bar> < 9007199254740992"
  shows "arredondar (m + 1) = m + 1"
proof (cases "m + 1 = 9007199254740992")
  case True
  then show ?thesis by (simp add: arredondar_2_53)
next
  case False
  then have "\<bar>m + 1\<bar> < 9007199254740992" using assms by auto
  then show ?thesis by (rule arredondar_exato)
qed

lemma ids_seguros_numericos: "ids_seguros rows \<Longrightarrow> ids_numericos rows"
  by (induction rows) (auto simp: ids_seguros_def ids_numericos_def split: option.splits)

lemma ids_seguros_limite:
  "ids_seguros rows \<Longrightarrow> m \<in> set (ids_de rows) \<Longrightarrow> \<bar>m\<bar> < 9007199254740992"
  by (induction rows) (auto simp: ids_seguros_def ids_de_def split: option.splits)

lemma next_id_seguros:
  assumes "ids_seguros rows"
  shows "next_id env rows = Some (um_mais_maximo rows)"
proof (cases "rows = []")
  case True
  then show ?thesis by (simp add: next_id_def um_mais_maximo_def)
next
  case False
  note n = ids_seguros_numericos[OF assms]
  have ne: "ids_de rows \<noteq> []" using False ids_de_Nil_iff[OF n] by simp
  then have "Max (set (ids_de rows)) \<in> set (ids_de rows)" by simp
  then have "\<bar>Max (set (ids_de rows))\<bar> < 9007199254740992"
    by (rule ids_seguros_limite[OF assms])
  then have "arredondar (Max (set (ids_de rows)) + 1) = Max (set (ids_de rows)) + 1"
    by (rule arredondar_mais_um)
  then show ?thesis using False ne
    by (simp add: next_id_def um_mais_maximo_def ids_numericos_map[OF n] math_max_Some)
qed

lemma um_mais_maximo_maior: "m \<in> set (ids_de rows) \<Longrightarrow> m < um_mais_maximo rows"
proof -
  assume m: "m \<in> set (ids_de rows)"
  then have "rows \<noteq> []" by (auto simp: ids_de_def)
  moreover have "m \<le> Max (set (ids_de rows))" using m by simp
  ultimately show ?thesis by (simp add: um_mais_maximo_def)
qed

lemma loja_cafe_tem_1:
  "\<exists>p \<in> set (promocoes_of (loja_cafe ''ativa'' (Some JNull))). field p ''id'' = Some (JNum 1)"
  by (simp add: loja_cafe_def promocoes_of_def promocao_cafe_def field_def)

lemma loja_cafe_sem_2:
  "\<not> (\<exists>p \<in> set (promocoes_of (loja_cafe ''ativa'' (Some JNull))). field p ''id'' = Some (JNum 2))"
  by (simp add: loja_cafe_def promocoes_of_def promocao_cafe_def field_def)

lemma select_1_desconhecida:
  "\<not> list_ex (str_includes ''SELECT 1'') padroes_leitura"
  "\<not> list_ex (startsWith ''SELECT 1'') padroes_escrita"
  by code_simp+

lemma loja_cafe_expirada_seguros:
  "ids_seguros (promocoes_of loja_cafe_expirada)"
  "ids_seguros (historico_of loja_cafe_expirada)"
  by (simp_all add: loja_cafe_expirada_def promocoes_of_def historico_of_def ids_seguros_def
        id_num_def promocao_cafe_def historico_cafe_def field_def)

lemma loja_cafe_expirada_maximo:
  "um_mais_maximo (promocoes_of loja_cafe_expirada) = 2"
  "um_mais_maximo (historico_of loja_cafe_expirada) = 2"
  by (simp_all add: loja_cafe_expirada_def promocoes_of_def historico_of_def um_mais_maximo_def
        ids_de_def id_num_def promocao_cafe_def historico_cafe_def field_def)

section \<open>The claims\<close>

text \<open>
  C1. The aggregate counts. The claim is that \<open>ativas\<close> and \<open>expiradas\<close> count the rows of
  the respective status. On the web adapter the three counts over the promotions all come
  from the first count pattern, a substring of the other two, so each is the number of all
  rows (\<open>estatisticas_web\<close>). With one expired promotion stored and nothing else, the
  service reports one active promotion.
\<close>

theorem obterEstatisticas_ativas_conta_todas:
  "obterEstatisticasPromocoes env (loja_cafe ''expirada'' (Some (JStr ''2024-02-01''))) =
     \<lparr>total = JNum 1, ativas = JNum 1, expiradas = JNum 1, canceladas = JNum 0\<rparr>"
  by (simp add: estatisticas_web loja_cafe_def promocoes_of_def historico_of_def)

text \<open>
  C2. Two runs of the expiration sweep, one after the other, on any store and with any two
  dates: a promotion identifier \<open>k\<close> without an \<open>expirada\<close> history row before the runs has at
  most one after them, an identifier that has such rows before the runs has the same number
  after them, and an identifier that has one after the first run gets none from the second.
  The proof goes through the guard of the loop and holds whatever rows the read of the
  sweep returns.
\<close>

theorem varredura_dupla_no_maximo_uma_expirada:
  "(n_expirada k (historico_of st) = 0 \<longrightarrow>
      n_expirada k (historico_of (atualizarStatusPromocoes env hoje2 (atualizarStatusPromocoes env hoje1 st))) \<le> 1) \<and>
   (1 \<le> n_expirada k (historico_of st) \<longrightarrow>
      n_expirada k (historico_of (atualizarStatusPromocoes env hoje2 (atualizarStatusPromocoes env hoje1 st)))
        = n_expirada k (historico_of st)) \<and>
   (1 \<le> n_expirada k (historico_of (atualizarStatusPromocoes env hoje1 st)) \<longrightarrow>
      n_expirada k (historico_of (atualizarStatusPromocoes env hoje2 (atualizarStatusPromocoes env hoje1 st)))
        = n_expirada k (historico_of (atualizarStatusPromocoes env hoje1 st)))"
  using sweep_guarda[of k st env hoje1] sweep_guarda[of k "atualizarStatusPromocoes env hoje1 st" env hoje2]
  by (cases "n_expirada k (historico_of (atualizarStatusPromocoes env hoje1 st)) = 0") auto

theorem varredura_dupla_no_maximo_uma_expirada_witness:
  "n_expirada (Some (JNum 1)) (historico_of (loja_cafe ''ativa'' (Some JNull))) = 0 \<and>
   n_expirada (Some (JNum 1)) (historico_of
     (atualizarStatusPromocoes env_exemplo ''2024-02-02''
       (atualizarStatusPromocoes env_exemplo ''2024-02-01'' (loja_cafe ''ativa'' (Some JNull))))) \<le> 1 \<and>
   1 \<le> n_expirada (Some (JNum 1)) (historico_of loja_cafe_expirada) \<and>
   1 \<le> n_expirada (Some (JNum 1)) (historico_of
     (atualizarStatusPromocoes env_exemplo ''2024-02-01'' loja_cafe_expirada)) \<and>
   n_expirada (Some (JNum 1)) (historico_of
     (atualizarStatusPromocoes env_exemplo ''2024-02-02''
       (atualizarStatusPromocoes env_exemplo ''2024-02-01'' loja_cafe_expirada)))
     = n_expirada (Some (JNum 1)) (historico_of loja_cafe_expirada) \<and>
   n_expirada (Some (JNum 1)) (historico_of
     (atualizarStatusPromocoes env_exemplo ''2024-02-02''
       (atualizarStatusPromocoes env_exemplo ''2024-02-01'' loja_cafe_expirada)))
     = n_expirada (Some (JNum 1)) (historico_of
         (atualizarStatusPromocoes env_exemplo ''2024-02-01'' loja_cafe_expirada))"
proof -
  have a: "n_expirada (Some (JNum 1)) (historico_of (loja_cafe ''ativa'' (Some JNull))) = 0"
    by (simp add: loja_cafe_def historico_of_def n_expirada_def)
  have b: "1 \<le> n_expirada (Some (JNum 1)) (historico_of loja_cafe_expirada)"
    by (simp add: loja_cafe_expirada_def historico_of_def n_expirada_cafe)
  have c: "1 \<le> n_expirada (Some (JNum 1)) (historico_of
     (atualizarStatusPromocoes env_exemplo ''2024-02-01'' loja_cafe_expirada))"
    unfolding sweep_web_historico by (rule b)
  show ?thesis
    using a b c
      varredura_dupla_no_maximo_uma_expirada
        [of "Some (JNum 1)" "loja_cafe ''ativa'' (Some JNull)" env_exemplo "''2024-02-02''" "''2024-02-01''"]
      varredura_dupla_no_maximo_uma_expirada
        [of "Some (JNum 1)" loja_cafe_expirada env_exemplo "''2024-02-02''" "''2024-02-01''"]
    by blast
qed

text \<open>
  C3. One run of the sweep on an active promotion that ended before the evaluation date.
  The claim is that the status becomes \<open>expirada\<close>, the expiration date becomes the
  evaluation date and one \<open>expirada\<close> history row is appended. On the web adapter the first
  two happen and the third does not: the read \<^verbatim>\<open>WHERE data_expiracao = ? AND status = "expirada"\<close>
  matches no pattern of \<open>getAllAsync\<close>, so the loop that writes the history runs over no row
  and the sweep leaves the history of every store as it was (\<open>sweep_web_historico\<close>).
  The promotion below ended on 31 January and is swept on 1 February.
\<close>

theorem varredura_nao_registra_historico:
  "atualizarStatusPromocoes env ''2024-02-01'' (loja_cafe ''ativa'' (Some JNull)) =
     Some \<lparr>promocoes = [promocao_cafe ''expirada'' (Some (JStr ''2024-02-01''))],
           historico_promocoes = []\<rparr>"
  by code_simp

text \<open>
  C4. The status of a created promotion: the row appended to the promotions, whose
  identifier is the one returned, has status \<open>ativa\<close> exactly when the end date of the
  request parses to a time after the time of creation, and \<open>expirada\<close> otherwise.
\<close>

theorem criarPromocao_status_inicial:
  "\<exists>row. promocoes_of (snd (criarPromocao env agora dados st)) = promocoes_of st @ [row] \<and>
     field row ''id'' = Some (num_json (fst (criarPromocao env agora dados st))) \<and>
     field row ''status'' =
       Some (JStr (if (\<exists>t. date_parse env (dataFim dados) = Some t \<and> agora < t)
                   then ''ativa'' else ''expirada''))"
proof -
  have d: "depois_de env (dataFim dados) agora \<longleftrightarrow> (\<exists>t. date_parse env (dataFim dados) = Some t \<and> agora < t)"
    by (simp add: depois_de_def split: option.splits)
  show ?thesis
    unfolding d[symmetric]
    by (simp add: criarPromocao_def Let_def case_prod_beta
          run_insert_promocoes[OF historico_starts(5)] run_insert_historico[OF historico_starts(1)]
          promocoes_of_def[of "Some x" for x] historico_of_def[of "Some x" for x]
          param_def nova_promocao_campos del: json_obj.simps)
qed



text \<open>
  C6. What the \<open>atualizada\<close> history row records. The claim is that it carries the current
  date and the product name, start date and end date of the promotion. The date is there.
  The name and the two dates are read from the row that \<open>buscarPromocaoPorId\<close> returns after
  the update, under the names \<^verbatim>\<open>produtoNome\<close>, \<^verbatim>\<open>dataInicio\<close> and \<^verbatim>\<open>dataFim\<close>
  (\<open>atualizar_com_desconto\<close>); the web adapter returns the stored row, whose properties are
  \<^verbatim>\<open>produto_nome\<close>, \<^verbatim>\<open>data_inicio\<close> and \<^verbatim>\<open>data_fim\<close>, so the three values are \<^verbatim>\<open>undefined\<close> and the
  history row is stored without them.
\<close>

theorem atualizarPromocao_historico_sem_nome:
  "historico_of (atualizarPromocao env ''2024-03-05'' 1 [(Desconto, Some (JNum 20))]
       (loja_cafe ''ativa'' (Some JNull))) =
     [[(''id'', JNum 1), (''promocao_id'', JNum 1), (''desconto'', JNum 20),
       (''acao'', JStr ''atualizada''), (''data_acao'', JStr ''2024-03-05'')]]"
  by code_simp

text \<open>
  C7. Deleting a promotion. When a promotion with the identifier is stored, one history row
  with the action of a deletion and that identifier is appended, every row with the
  identifier is removed, and no read of the service returns it afterwards. When none is
  stored, both tables are as before. No function of the model has an error result.
\<close>

theorem excluirPromocao_efeito:
  "((\<exists>p \<in> set (promocoes_of st). field p ''id'' = Some (JNum ident)) \<longrightarrow>
      (\<exists>h. historico_of (excluirPromocao env hoje ident st) = historico_of st @ [h] \<and>
           field h ''acao'' = Some (JStr excluida) \<and>
           field h ''promocao_id'' = Some (JNum ident)) \<and>
      promocoes_of (excluirPromocao env hoje ident st) =
        filter (\<lambda>p. field p ''id'' \<noteq> Some (JNum ident)) (promocoes_of st) \<and>
      buscarPromocaoPorId env (excluirPromocao env hoje ident st) ident = None \<and>
      (\<forall>p \<in> set (buscarTodasPromocoes env (excluirPromocao env hoje ident st)).
          field p ''id'' \<noteq> Some (JNum ident)) \<and>
      (\<forall>p \<in> set (buscarPromocoesPorStatus env (excluirPromocao env hoje ident st) s).
          field p ''id'' \<noteq> Some (JNum ident))) \<and>
   (\<not> (\<exists>p \<in> set (promocoes_of st). field p ''id'' = Some (JNum ident)) \<longrightarrow>
      promocoes_of (excluirPromocao env hoje ident st) = promocoes_of st \<and>
      historico_of (excluirPromocao env hoje ident st) = historico_of st)"
proof (intro conjI impI)
  assume ex: "\<exists>p \<in> set (promocoes_of st). field p ''id'' = Some (JNum ident)"
  then obtain promocao where p: "buscarPromocaoPorId env st ident = Some promocao"
    using por_id_None_iff[of env st ident] by (cases "buscarPromocaoPorId env st ident") auto
  note e = excluir_existente[OF p, of hoje]
  show "\<exists>h. historico_of (excluirPromocao env hoje ident st) = historico_of st @ [h] \<and>
           field h ''acao'' = Some (JStr excluida) \<and> field h ''promocao_id'' = Some (JNum ident)"
    unfolding e by (simp add: historico_of_def[of "Some x" for x] novo_historico_campos del: json_obj.simps)
  show r: "promocoes_of (excluirPromocao env hoje ident st) =
        filter (\<lambda>p. field p ''id'' \<noteq> Some (JNum ident)) (promocoes_of st)"
    unfolding e by (simp add: promocoes_of_def[of "Some x" for x])
  show "buscarPromocaoPorId env (excluirPromocao env hoje ident st) ident = None"
    unfolding por_id_None_iff r by simp
  show "\<forall>p \<in> set (buscarTodasPromocoes env (excluirPromocao env hoje ident st)).
          field p ''id'' \<noteq> Some (JNum ident)"
    unfolding todas_set r by simp
  show "\<forall>p \<in> set (buscarPromocoesPorStatus env (excluirPromocao env hoje ident st) s).
          field p ''id'' \<noteq> Some (JNum ident)"
    unfolding por_status_set r by simp
next
  assume nex: "\<not> (\<exists>p \<in> set (promocoes_of st). field p ''id'' = Some (JNum ident))"
  then have p: "buscarPromocaoPorId env st ident = None"
    by (simp only: por_id_None_iff not_False_eq_True)
  have f: "filter (\<lambda>p. field p ''id'' \<noteq> Some (JNum ident)) (promocoes_of st) = promocoes_of st"
    using nex by (simp add: filter_id_conv)
  show "promocoes_of (excluirPromocao env hoje ident st) = promocoes_of st"
    unfolding excluir_inexistente[OF p] by (simp add: promocoes_of_def[of "Some x" for x] f)
  show "historico_of (excluirPromocao env hoje ident st) = historico_of st"
    unfolding excluir_inexistente[OF p] by (simp add: historico_of_def[of "Some x" for x])
qed

theorem excluirPromocao_efeito_witness:
  "(\<exists>p \<in> set (promocoes_of (loja_cafe ''ativa'' (Some JNull))). field p ''id'' = Some (JNum 1)) \<and>
   (\<exists>h. historico_of (excluirPromocao env_exemplo ''2024-03-05'' 1 (loja_cafe ''ativa'' (Some JNull)))
           = historico_of (loja_cafe ''ativa'' (Some JNull)) @ [h] \<and>
        field h ''acao'' = Some (JStr excluida) \<and> field h ''promocao_id'' = Some (JNum 1)) \<and>
   buscarPromocaoPorId env_exemplo
     (excluirPromocao env_exemplo ''2024-03-05'' 1 (loja_cafe ''ativa'' (Some JNull))) 1 = None \<and>
   \<not> (\<exists>p \<in> set (promocoes_of (loja_cafe ''ativa'' (Some JNull))). field p ''id'' = Some (JNum 2)) \<and>
   promocoes_of (excluirPromocao env_exemplo ''2024-03-05'' 2 (loja_cafe ''ativa'' (Some JNull)))
     = promocoes_of (loja_cafe ''ativa'' (Some JNull)) \<and>
   historico_of (excluirPromocao env_exemplo ''2024-03-05'' 2 (loja_cafe ''ativa'' (Some JNull)))
     = historico_of (loja_cafe ''ativa'' (Some JNull))"
  using loja_cafe_tem_1 loja_cafe_sem_2
    excluirPromocao_efeito[of "loja_cafe ''ativa'' (Some JNull)" 1 env_exemplo "''2024-03-05''" "''ativa''"]
    excluirPromocao_efeito[of "loja_cafe ''ativa'' (Some JNull)" 2 env_exemplo "''2024-03-05''" "''ativa''"]
  by blast

text \<open>
  C8. The history is append-only: after any mutating statement of the adapter and after
  each operation of the service that writes, the history is the history before followed by
  the new rows. The reads of the service return rows and no storage: \<open>getAllAsync\<close> never
  writes the document back.
\<close>

theorem historico_so_acrescenta:
  "(\<exists>novos. historico_of (snd (runAsync env st q ps)) = historico_of st @ novos) \<and>
   (\<exists>novos. historico_of (snd (criarPromocao env agora dados st)) = historico_of st @ novos) \<and>
   (\<exists>novos. historico_of (atualizarPromocao env hoje ident updates st) = historico_of st @ novos) \<and>
   (\<exists>novos. historico_of (excluirPromocao env hoje ident st) = historico_of st @ novos) \<and>
   (\<exists>novos. historico_of (atualizarStatusPromocoes env hoje st) = historico_of st @ novos)"
proof (intro conjI)
  show "\<exists>novos. historico_of (snd (runAsync env st q ps)) = historico_of st @ novos"
    by (rule run_acrescenta)
  show "\<exists>novos. historico_of (snd (criarPromocao env agora dados st)) = historico_of st @ novos"
    unfolding criarPromocao_def Let_def case_prod_beta snd_conv
    by (rule acrescenta_trans[OF run_acrescenta run_acrescenta])
  show "\<exists>novos. historico_of (atualizarPromocao env hoje ident updates st) = historico_of st @ novos"
    unfolding atualizarPromocao_def Let_def case_prod_beta
    using run_acrescenta acrescenta_trans[OF run_acrescenta run_acrescenta]
    by (auto split: option.splits)
  show "\<exists>novos. historico_of (excluirPromocao env hoje ident st) = historico_of st @ novos"
    unfolding excluirPromocao_def Let_def
    using run_acrescenta acrescenta_trans[OF run_acrescenta run_acrescenta]
    by (auto split: option.splits)
  show "\<exists>novos. historico_of (atualizarStatusPromocoes env hoje st) = historico_of st @ novos"
    unfolding sweep_historico
    by (rule acrescenta_trans[OF run_acrescenta registrar_expiradas_acrescenta])
qed

text \<open>
  C9. A statement that none of the patterns matches: \<open>getAllAsync\<close> returns no row, and
  \<open>runAsync\<close> returns identifier zero and zero changes and leaves the storage as it was.
\<close>

theorem consulta_desconhecida:
  "(\<not> list_ex (str_includes q) padroes_leitura \<longrightarrow> getAllAsync env st q ps = []) \<and>
   (\<not> list_ex (startsWith q) padroes_escrita \<longrightarrow>
      runAsync env st q ps = (\<lparr>lastInsertRowId = Some 0, changes = 0\<rparr>, st))"
  by (cases st) (simp_all add: padroes_leitura_def padroes_escrita_def getAllAsync_def runAsync_def)

theorem consulta_desconhecida_witness:
  "\<not> list_ex (str_includes ''SELECT 1'') padroes_leitura \<and>
   getAllAsync env_exemplo (loja_cafe ''ativa'' (Some JNull)) ''SELECT 1'' [] = [] \<and>
   \<not> list_ex (startsWith ''SELECT 1'') padroes_escrita \<and>
   runAsync env_exemplo (loja_cafe ''ativa'' (Some JNull)) ''SELECT 1'' [] =
     (\<lparr>lastInsertRowId = Some 0, changes = 0\<rparr>, loja_cafe ''ativa'' (Some JNull))"
  using select_1_desconhecida
    consulta_desconhecida[of "''SELECT 1''" env_exemplo "loja_cafe ''ativa'' (Some JNull)" "[]"]
  by blast

text \<open>
  C10. The identifier of an inserted row. The claim is that it is one more than the largest
  stored identifier, hence new and greater than all of them. The sum is a sum of doubles:
  from \<open>2^53\<close> on, one more than a double is no double, and the sum is rounded. In the store
  below the one promotion has the identifier \<open>2^53\<close>, and the insert generates \<open>2^53\<close> again.
\<close>

theorem insert_id_repetido_em_2_53:
  "ids_numericos (promocoes_of loja_id_2_53) \<and>
   ids_de (promocoes_of loja_id_2_53) = [9007199254740992] \<and>
   um_mais_maximo (promocoes_of loja_id_2_53) = 9007199254740993 \<and>
   lastInsertRowId (fst (runAsync env_exemplo loja_id_2_53 sql_inserir_promocao []))
     = Some 9007199254740992"
proof -
  have ids: "ids_de (promocoes_of loja_id_2_53) = [9007199254740992]"
    by (simp add: loja_id_2_53_def promocoes_of_def ids_de_def id_num_def field_def)
  have num: "ids_numericos (promocoes_of loja_id_2_53)"
    by (simp add: loja_id_2_53_def promocoes_of_def ids_numericos_def id_num_def field_def)
  have m: "um_mais_maximo (promocoes_of loja_id_2_53) = 9007199254740993"
    unfolding um_mais_maximo_def ids
    by (simp add: loja_id_2_53_def promocoes_of_def)
  have "next_id env_exemplo (promocoes_of loja_id_2_53) = Some 9007199254740992"
    unfolding next_id_def ids_numericos_map[OF num] ids
    by (simp add: loja_id_2_53_def promocoes_of_def arredondar_2_53)
  then have "lastInsertRowId (fst (runAsync env_exemplo loja_id_2_53 sql_inserir_promocao []))
     = Some 9007199254740992"
    by (simp add: run_insert_promocoes[OF historico_starts(5)])
  then show ?thesis using ids num m by simp
qed

text \<open>
  C10, amended. In either table whose stored identifiers are safe integers, of magnitude
  below \<open>2^53\<close>, the identifier of an inserted row is one more than the largest of them, or
  one when the table is empty; it is returned and stored in the new row, and it is greater
  than every identifier in the table. This holds of the adapter the service uses and of
  the one of \<^verbatim>\<open>services/database.ts\<close>.
\<close>

theorem insert_id_um_mais_maximo:
  "(startsWith q ''INSERT INTO promocoes'' \<and> ids_seguros (promocoes_of st) \<longrightarrow>
      lastInsertRowId (fst (runAsync env st q ps)) = Some (um_mais_maximo (promocoes_of st)) \<and>
      (\<exists>row. promocoes_of (snd (runAsync env st q ps)) = promocoes_of st @ [row] \<and>
             field row ''id'' = Some (JNum (um_mais_maximo (promocoes_of st)))) \<and>
      lastInsertRowId (fst (impl_runAsync env st q ps)) = Some (um_mais_maximo (promocoes_of st)) \<and>
      (\<exists>row. promocoes_of (snd (impl_runAsync env st q ps)) = promocoes_of st @ [row] \<and>
             field row ''id'' = Some (JNum (um_mais_maximo (promocoes_of st)))) \<and>
      (\<forall>m \<in> set (ids_de (promocoes_of st)). m < um_mais_maximo (promocoes_of st))) \<and>
   (startsWith q ''INSERT INTO historico_promocoes'' \<and> ids_seguros (historico_of st) \<longrightarrow>
      lastInsertRowId (fst (runAsync env st q ps)) = Some (um_mais_maximo (historico_of st)) \<and>
      (\<exists>row. historico_of (snd (runAsync env st q ps)) = historico_of st @ [row] \<and>
             field row ''id'' = Some (JNum (um_mais_maximo (historico_of st)))) \<and>
      lastInsertRowId (fst (impl_runAsync env st q ps)) = Some (um_mais_maximo (historico_of st)) \<and>
      (\<exists>row. historico_of (snd (impl_runAsync env st q ps)) = historico_of st @ [row] \<and>
             field row ''id'' = Some (JNum (um_mais_maximo (historico_of st)))) \<and>
      (\<forall>m \<in> set (ids_de (historico_of st)). m < um_mais_maximo (historico_of st)))"
proof (intro conjI impI ballI; (elim conjE)?)
  assume q: "startsWith q ''INSERT INTO promocoes''" and n: "ids_seguros (promocoes_of st)"
  show "lastInsertRowId (fst (runAsync env st q ps)) = Some (um_mais_maximo (promocoes_of st))"
    by (simp add: run_insert_promocoes[OF q] next_id_seguros[OF n])
  show "\<exists>row. promocoes_of (snd (runAsync env st q ps)) = promocoes_of st @ [row] \<and>
             field row ''id'' = Some (JNum (um_mais_maximo (promocoes_of st)))"
    by (simp add: run_insert_promocoes[OF q] next_id_seguros[OF n] num_json_def
          promocoes_of_def[of "Some x" for x] nova_promocao_campos del: json_obj.simps)
  show "lastInsertRowId (fst (impl_runAsync env st q ps)) = Some (um_mais_maximo (promocoes_of st))"
    by (simp add: impl_run_insert_promocoes[OF q] next_id_seguros[OF n])
  show "\<exists>row. promocoes_of (snd (impl_runAsync env st q ps)) = promocoes_of st @ [row] \<and>
             field row ''id'' = Some (JNum (um_mais_maximo (promocoes_of st)))"
    by (simp add: impl_run_insert_promocoes[OF q] next_id_seguros[OF n] num_json_def
          promocoes_of_def[of "Some x" for x] impl_nova_promocao_id del: json_obj.simps)
next
  fix m assume "m \<in> set (ids_de (promocoes_of st))"
  then show "m < um_mais_maximo (promocoes_of st)" by (rule um_mais_maximo_maior)
next
  assume q: "startsWith q ''INSERT INTO historico_promocoes''" and n: "ids_seguros (historico_of st)"
  show "lastInsertRowId (fst (runAsync env st q ps)) = Some (um_mais_maximo (historico_of st))"
    by (simp add: run_insert_historico[OF q] next_id_seguros[OF n])
  show "\<exists>row. historico_of (snd (runAsync env st q ps)) = historico_of st @ [row] \<and>
             field row ''id'' = Some (JNum (um_mais_maximo (historico_of st)))"
    by (simp add: run_insert_historico[OF q] next_id_seguros[OF n] num_json_def
          historico_of_def[of "Some x" for x] novo_historico_id del: json_obj.simps)
  show "lastInsertRowId (fst (impl_runAsync env st q ps)) = Some (um_mais_maximo (historico_of st))"
    by (simp add: impl_run_insert_historico[OF q] next_id_seguros[OF n])
  show "\<exists>row. historico_of (snd (impl_runAsync env st q ps)) = historico_of st @ [row] \<and>
             field row ''id'' = Some (JNum (um_mais_maximo (historico_of st)))"
    by (simp add: impl_run_insert_historico[OF q] next_id_seguros[OF n] num_json_def
          historico_of_def[of "Some x" for x] novo_historico_id del: json_obj.simps)
next
  fix m assume "m \<in> set (ids_de (historico_of st))"
  then show "m < um_mais_maximo (historico_of st)" by (rule um_mais_maximo_maior)
qed

theorem insert_id_um_mais_maximo_witness:
  "startsWith sql_inserir_promocao ''INSERT INTO promocoes'' \<and>
   ids_seguros (promocoes_of loja_cafe_expirada) \<and>
   lastInsertRowId (fst (runAsync env_exemplo loja_cafe_expirada sql_inserir_promocao [])) = Some 2 \<and>
   lastInsertRowId (fst (impl_runAsync env_exemplo loja_cafe_expirada sql_inserir_promocao [])) = Some 2 \<and>
   startsWith sql_historico_criada ''INSERT INTO historico_promocoes'' \<and>
   ids_seguros (historico_of loja_cafe_expirada) \<and>
   lastInsertRowId (fst (runAsync env_exemplo loja_cafe_expirada sql_historico_criada [])) = Some 2 \<and>
   lastInsertRowId (fst (impl_runAsync env_exemplo loja_cafe_expirada sql_historico_criada [])) = Some 2"
  using historico_starts(1,5) loja_cafe_expirada_seguros
    insert_id_um_mais_maximo[of sql_inserir_promocao loja_cafe_expirada env_exemplo "[]"]
    insert_id_um_mais_maximo[of sql_historico_criada loja_cafe_expirada env_exemplo "[]"]
  unfolding loja_cafe_expirada_maximo
  by blast

end
